theory Spec2Isabelle
  imports Complex_Main
begin

section \<open>Shell escaping (index.ts, escapeShellArg)\<close>

text \<open>
  Strings are lists of characters. The quote, the backslash and the control
  characters are written by their codes.
\<close>

definition quote :: char where
  "quote = CHR 0x27"

definition backslash :: char where
  "backslash = CHR 0x5C"

definition newline :: char where
  "newline = CHR 0x0A"

definition tab :: char where
  "tab = CHR 0x09"

definition nul :: char where
  "nul = CHR 0x00"

text \<open>
  \<^verbatim>\<open>arg.replace(/'/g, "'\\''")\<close>: every quote becomes the four characters
  quote, backslash, quote, quote; every other character is kept. The replacement
  text holds no dollar sign, so none of the replacement patterns of
  \<^verbatim>\<open>String.prototype.replace\<close> applies.
\<close>

definition replace_quote :: "char \<Rightarrow> string" where
  "replace_quote c = (if c = quote then [quote, backslash, quote, quote] else [c])"

definition escapeShellArg :: "string \<Rightarrow> string" where
  "escapeShellArg arg = [quote] @ concat (map replace_quote arg) @ [quote]"

section \<open>The POSIX shell's word splitting\<close>

text \<open>
  On every host but win32, \<^verbatim>\<open>child_process.exec\<close> hands the command string
  to \<^verbatim>\<open>/bin/sh -c\<close> (on win32 it is \<^verbatim>\<open>cmd.exe\<close>, which is not modelled
  here). A command that holds a NUL character is refused before any shell
  is started, so that it has no arguments at all: the result is \<open>None\<close>. The
  part of the shell's token recognition (POSIX XCU 2.2 and 2.3) that a command
  built from plain words and single-quoted text needs: blanks separate words, a
  single quote starts text that is literal up to the next single quote, a
  backslash outside quotes makes the next character literal (and removes a
  following newline), and quoted and unquoted pieces that touch form one word.
  Every other character with a meaning of its own to the shell (operators, the
  newline, double quotes, expansions, patterns, comments, the tilde, braces,
  the equals sign and the exclamation mark) is outside this fragment when it
  is unquoted: the result is then \<open>None\<close>. A result \<open>Some argv\<close> is
  therefore one simple command with exactly the arguments \<open>argv\<close>.

  The first argument of \<open>sh_unquoted\<close> is the word under construction, if any.
\<close>

definition sh_special :: "char \<Rightarrow> bool" where
  "sh_special c = (c \<in> set ''|&;<>()$`\"*?[#~=%{}!'' \<or> c = newline)"

definition word_so_far :: "string option \<Rightarrow> string" where
  "word_so_far w = (case w of None \<Rightarrow> [] | Some s \<Rightarrow> s)"

fun sh_unquoted :: "string option \<Rightarrow> string \<Rightarrow> string list option"
  and sh_quoted :: "string \<Rightarrow> string \<Rightarrow> string list option" where
  "sh_unquoted w [] = Some (case w of None \<Rightarrow> [] | Some s \<Rightarrow> [s])"
| "sh_unquoted w (c # cs) =
     (if c = quote then sh_quoted (word_so_far w) cs
      else if c = CHR '' '' \<or> c = tab then
        (case w of
           None \<Rightarrow> sh_unquoted None cs
         | Some s \<Rightarrow> map_option (Cons s) (sh_unquoted None cs))
      else if c = backslash then
        (case cs of
           [] \<Rightarrow> None
         | d # ds \<Rightarrow>
             if d = newline then sh_unquoted w ds
             else sh_unquoted (Some (word_so_far w @ [d])) ds)
      else if sh_special c then None
      else sh_unquoted (Some (word_so_far w @ [c])) cs)"
| "sh_quoted s [] = None"
| "sh_quoted s (c # cs) =
     (if c = quote then sh_unquoted (Some s) cs else sh_quoted (s @ [c]) cs)"

definition sh_words :: "string \<Rightarrow> string list option" where
  "sh_words cmd = (if nul \<in> set cmd then None else sh_unquoted None cmd)"

section \<open>JavaScript values\<close>

text \<open>
  A number is the value of a double: a rational, or one of the two infinities
  (\<^verbatim>\<open>JSON.parse\<close> gives \<^verbatim>\<open>Infinity\<close> for a literal beyond the range). NaN
  does not arise in this program, and the negative zero behaves as zero in
  every operation used here. The order is the order of the values.
\<close>

datatype number = MinusInfinity | Finite rat | PlusInfinity

instantiation number :: linorder
begin

definition less_eq_number :: "number \<Rightarrow> number \<Rightarrow> bool" where
  "less_eq_number a b =
     (case a of
        MinusInfinity \<Rightarrow> True
      | Finite x \<Rightarrow>
          (case b of MinusInfinity \<Rightarrow> False | Finite y \<Rightarrow> x \<le> y | PlusInfinity \<Rightarrow> True)
      | PlusInfinity \<Rightarrow> b = PlusInfinity)"

definition less_number :: "number \<Rightarrow> number \<Rightarrow> bool" where
  "less_number a b = (a \<le> b \<and> \<not> b \<le> a)"

instance
  by standard (auto simp: less_eq_number_def less_number_def split: number.splits)

end

text \<open>
  \<^verbatim>\<open>JSON.parse\<close> and the request's \<^verbatim>\<open>arguments\<close> give values of type
  \<^verbatim>\<open>any\<close>: the code tests them at run time, so the model keeps them untyped.
  An object is the list of its own properties, each key once.
\<close>

datatype jsval =
    JUndefined
  | JNull
  | JBool bool
  | JNum number
  | JStr string
  | JArr "jsval list"
  | JObj "(string \<times> jsval) list"

text \<open>\<^verbatim>\<open>!v\<close> is \<open>\<not> truthy v\<close>.\<close>

fun truthy :: "jsval \<Rightarrow> bool" where
  "truthy JUndefined = False"
| "truthy JNull = False"
| "truthy (JBool b) = b"
| "truthy (JNum n) = (n \<noteq> Finite 0)"
| "truthy (JStr s) = (s \<noteq> [])"
| "truthy (JArr xs) = True"
| "truthy (JObj kvs) = True"

fun typeof :: "jsval \<Rightarrow> string" where
  "typeof JUndefined = ''undefined''"
| "typeof JNull = ''object''"
| "typeof (JBool b) = ''boolean''"
| "typeof (JNum n) = ''number''"
| "typeof (JStr s) = ''string''"
| "typeof (JArr xs) = ''object''"
| "typeof (JObj kvs) = ''object''"

fun isArray :: "jsval \<Rightarrow> bool" where
  "isArray (JArr xs) = True"
| "isArray v = False"

fun elements :: "jsval \<Rightarrow> jsval list" where
  "elements (JArr xs) = xs"
| "elements v = []"

fun string_of :: "jsval \<Rightarrow> string" where
  "string_of (JStr s) = s"
| "string_of v = []"

fun join :: "string \<Rightarrow> string list \<Rightarrow> string" where
  "join sep [] = []"
| "join sep [x] = x"
| "join sep (x # y # ys) = x @ sep @ join sep (y # ys)"

text \<open>
  \<^verbatim>\<open>`${v}`\<close> is the ToString conversion, which can raise a TypeError; the
  result is the message of the error, or the text. A string is itself. A
  number is printed by \<^verbatim>\<open>Number.prototype.toString\<close>, the parameter
  \<open>number_text\<close>. An array is its elements joined by commas, null and undefined
  elements printing as nothing. An object of \<^verbatim>\<open>JSON.parse\<close> has no callable
  property of its own: with an own key \<^verbatim>\<open>toString\<close> the inherited method is
  hidden and the conversion raises, otherwise it prints as
  \<^verbatim>\<open>[object Object]\<close>.
\<close>

fun collect :: "(string + string) list \<Rightarrow> string + string list" where
  "collect [] = Inr []"
| "collect (Inl message # rest) = Inl message"
| "collect (Inr s # rest) =
     (case collect rest of Inl message \<Rightarrow> Inl message | Inr ss \<Rightarrow> Inr (s # ss))"

fun js_to_string :: "(number \<Rightarrow> string) \<Rightarrow> jsval \<Rightarrow> string + string" where
  "js_to_string number_text JUndefined = Inr ''undefined''"
| "js_to_string number_text JNull = Inr ''null''"
| "js_to_string number_text (JBool b) = Inr (if b then ''true'' else ''false'')"
| "js_to_string number_text (JNum n) = Inr (number_text n)"
| "js_to_string number_text (JStr s) = Inr s"
| "js_to_string number_text (JArr xs) =
     (case collect (map (\<lambda>x. if x = JNull \<or> x = JUndefined then Inr []
                              else js_to_string number_text x) xs) of
        Inl message \<Rightarrow> Inl message
      | Inr texts \<Rightarrow> Inr (join '','' texts))"
| "js_to_string number_text (JObj kvs) =
     (if ''toString'' \<in> set (map fst kvs)
      then Inl ''Cannot convert object to primitive value''
      else Inr ''[object Object]'')"

text \<open>
  \<open>property v k\<close> is \<^verbatim>\<open>v.k\<close> for a value that is neither null nor undefined,
  and for the keys this program reads (none of them is a built-in property of
  arrays, strings, numbers or booleans). \<open>read_property\<close> adds the TypeError of
  reading a property of null or undefined, with V8's message.
\<close>

fun property :: "jsval \<Rightarrow> string \<Rightarrow> jsval" where
  "property (JObj kvs) k = (case map_of kvs k of None \<Rightarrow> JUndefined | Some v \<Rightarrow> v)"
| "property v k = JUndefined"

definition read_property :: "jsval \<Rightarrow> string \<Rightarrow> string + jsval" where
  "read_property v k =
     (if v = JNull \<or> v = JUndefined then
        Inl (''Cannot read properties of '' @ (if v = JNull then ''null'' else ''undefined'')
             @ '' (reading '' @ [quote] @ k @ [quote] @ '')'')
      else Inr (property v k))"

text \<open>
  \<^verbatim>\<open>a > b\<close>. Two numbers compare as numbers, and a comparison with undefined
  is false (undefined converts to NaN). For every other pair JavaScript converts
  the operands (strings to numbers, arrays and objects to strings); that
  conversion is not part of this program and is taken as the parameter \<open>other\<close>.
\<close>

definition is_number :: "jsval \<Rightarrow> bool" where
  "is_number v = (case v of JNum n \<Rightarrow> True | _ \<Rightarrow> False)"

definition number_of :: "jsval \<Rightarrow> number" where
  "number_of v = (case v of JNum n \<Rightarrow> n | _ \<Rightarrow> Finite 0)"

definition js_gt :: "(jsval \<Rightarrow> jsval \<Rightarrow> bool) \<Rightarrow> jsval \<Rightarrow> jsval \<Rightarrow> bool" where
  "js_gt other a b =
     (if is_number a \<and> is_number b then number_of a > number_of b
      else if a = JUndefined \<or> b = JUndefined then False
      else other a b)"

section \<open>The environment of a request\<close>

text \<open>
  Everything the program reads from outside is a field of the environment:
  the \<^verbatim>\<open>os\<close> module, \<^verbatim>\<open>process.env.APPDATA\<close>, \<^verbatim>\<open>path.join\<close>,
  \<^verbatim>\<open>Number.prototype.toString\<close>, the file system and the child processes.
  \<open>list_dir p\<close> is the outcome of
  \<^verbatim>\<open>fs.promises.stat(p)\<close> followed by \<^verbatim>\<open>fs.promises.readdir(p, {withFileTypes: true})\<close>;
  \<open>read_json p\<close> is the outcome of \<^verbatim>\<open>fs.promises.readFile(p, "utf-8")\<close> followed
  by \<^verbatim>\<open>JSON.parse\<close>, each failure with the message of the error thrown;
  \<open>execAsync cmd\<close> is the outcome of \<^verbatim>\<open>execAsync(cmd)\<close>. An error that is
  caught is known by the three properties that the handler reads; one that is
  absent is empty here, since the handler only tests them for truth.
\<close>

record dirent =
  entry_name :: string
  isDirectory :: bool

datatype dir_result = StatFails | ReaddirFails | Listing "dirent list"

datatype file_result = ReadFails string | ParseFails string | Parsed jsval

record caught_error =
  error_stderr :: string
  error_stdout :: string
  error_message :: string

datatype exec_result = Completed string string | Rejected caught_error

record env =
  platform :: string
  release :: string
  homedir :: string
  APPDATA :: "string option"
  path_join :: "string list \<Rightarrow> string"
  number_toString :: "number \<Rightarrow> string"
  list_dir :: "string \<Rightarrow> dir_result"
  read_json :: "string \<Rightarrow> file_result"
  execAsync :: "string \<Rightarrow> exec_result"
  compare_other :: "jsval \<Rightarrow> jsval \<Rightarrow> bool"

section \<open>The metadata locator (index.ts, getApiMetadata)\<close>

definition ideApps :: "string list" where
  "ideApps = [''Code'', ''Cursor'', ''Windsurf'']"

text \<open>Lines 57 to 103: one candidate directory for each IDE, by operating system.\<close>

definition possiblePaths :: "env \<Rightarrow> string + string list" where
  "possiblePaths e =
     (if platform e = ''win32'' then
        (case APPDATA e of
           None \<Rightarrow> Inl ''APPDATA environment variable is not defined''
         | Some appData \<Rightarrow>
             if appData = [] then Inl ''APPDATA environment variable is not defined''
             else Inr (map (\<lambda>app. path_join e [appData, app, ''User'', ''globalStorage'',
                          ''saoudrizwan.claude-dev'', ''tasks'']) ideApps))
      else if platform e = ''darwin'' then
        Inr (map (\<lambda>app. path_join e [homedir e, ''Library'', ''Application Support'', app,
                   ''User'', ''globalStorage'', ''saoudrizwan.claude-dev'', ''tasks'']) ideApps)
      else if platform e = ''linux'' then
        Inr (map (\<lambda>app. path_join e [homedir e, ''.config'', app, ''User'', ''globalStorage'',
                   ''saoudrizwan.claude-dev'', ''tasks'']) ideApps)
      else Inl (''Unsupported operating system: '' @ platform e))"

text \<open>
  \<^verbatim>\<open>/^\d+$/.test(s)\<close>, and \<^verbatim>\<open>parseInt(s, 10)\<close> on such a string: the double
  nearest to the decimal value of the digits, ties to the even mantissa, as V8
  computes it. Below \<open>2 ^ 53\<close> the value is exact; from \<open>2 ^ 1024\<close> on the
  rounded value is \<^verbatim>\<open>Infinity\<close>.
\<close>

definition is_digit :: "char \<Rightarrow> bool" where
  "is_digit c = (c \<in> set ''0123456789'')"

definition all_digits :: "string \<Rightarrow> bool" where
  "all_digits s = (s \<noteq> [] \<and> list_all is_digit s)"

definition digit_value :: "char \<Rightarrow> nat" where
  "digit_value c = of_char c - 48"

definition decimal_value :: "string \<Rightarrow> nat" where
  "decimal_value s = foldl (\<lambda>acc c. 10 * acc + digit_value c) 0 s"

fun bit_length :: "nat \<Rightarrow> nat" where
  "bit_length n = (if n = 0 then 0 else Suc (bit_length (n div 2)))"

declare bit_length.simps [simp del]

definition round_to_double :: "nat \<Rightarrow> number" where
  "round_to_double n =
     (if n < 2 ^ 53 then Finite (of_nat n)
      else
        (let k = bit_length n - 53;
             q = n div 2 ^ k;
             r = n mod 2 ^ k;
             m = (if 2 * r > 2 ^ k \<or> (2 * r = 2 ^ k \<and> odd q) then q + 1 else q) * 2 ^ k
         in if m \<ge> 2 ^ 1024 then PlusInfinity else Finite (of_nat m)))"

definition parseInt :: "string \<Rightarrow> number" where
  "parseInt s = round_to_double (decimal_value s)"

definition numericDirs :: "dirent list \<Rightarrow> number list" where
  "numericDirs entries =
     map (\<lambda>entry. parseInt (entry_name entry))
       (filter (\<lambda>entry. isDirectory entry \<and> all_digits (entry_name entry)) entries)"

text \<open>
  Lines 109 to 133: the loop over the candidate directories. The state is the
  pair of \<^verbatim>\<open>highestOverallTaskNumber\<close> and \<^verbatim>\<open>finalBasePath\<close>. A directory
  whose stat or readdir fails is skipped by the \<^verbatim>\<open>catch\<close>.
\<close>

fun scan :: "env \<Rightarrow> string list \<Rightarrow> number \<times> string option \<Rightarrow> number \<times> string option" where
  "scan e [] state = state"
| "scan e (basePath # rest) (highest, final) =
     (case list_dir e basePath of
        Listing entries \<Rightarrow>
          (case numericDirs entries of
             [] \<Rightarrow> scan e rest (highest, final)
           | n # ns \<Rightarrow>
               (let currentHighestTaskNumber = foldl max n ns in
                if currentHighestTaskNumber > highest
                then scan e rest (currentHighestTaskNumber, Some basePath)
                else scan e rest (highest, final)))
      | StatFails \<Rightarrow> scan e rest (highest, final)
      | ReaddirFails \<Rightarrow> scan e rest (highest, final))"

text \<open>Lines 140 to 147: \<^verbatim>\<open>finalBasePath.includes(ideName)\<close>, first hit wins.\<close>

definition starts_with :: "string \<Rightarrow> string \<Rightarrow> bool" where
  "starts_with s p = (take (length p) s = p)"

fun str_includes :: "string \<Rightarrow> string \<Rightarrow> bool" where
  "str_includes [] sub = (sub = [])"
| "str_includes (c # cs) sub = (starts_with (c # cs) sub \<or> str_includes cs sub)"

fun ide_of_path :: "string \<Rightarrow> string list \<Rightarrow> string" where
  "ide_of_path finalBasePath [] = ''Unknown''"
| "ide_of_path finalBasePath (ideName # rest) =
     (if str_includes finalBasePath ideName then ideName else ide_of_path finalBasePath rest)"

text \<open>
  Lines 181 to 186: the \<^verbatim>\<open>reduce\<close> that keeps the entry with the greatest
  timestamp. \<^verbatim>\<open>!latest || current.ts > latest.ts\<close> reads \<^verbatim>\<open>current.ts\<close>
  only when \<open>latest\<close> is truthy, and then raises on a null entry.
\<close>

fun latest_entry :: "(jsval \<Rightarrow> jsval \<Rightarrow> bool) \<Rightarrow> jsval \<Rightarrow> jsval list \<Rightarrow> string + jsval" where
  "latest_entry other latest [] = Inr latest"
| "latest_entry other latest (current # rest) =
     (if \<not> truthy latest then latest_entry other current rest
      else
        (case read_property current ''ts'' of
           Inl message \<Rightarrow> Inl message
         | Inr current_ts \<Rightarrow>
             (case read_property latest ''ts'' of
                Inl message \<Rightarrow> Inl message
              | Inr latest_ts \<Rightarrow>
                  latest_entry other
                    (if js_gt other current_ts latest_ts then current else latest) rest)))"

record api_metadata =
  apiProvider :: jsval
  modelName :: jsval
  ideUsed :: string

text \<open>
  Lines 161 to 202, the body of the \<^verbatim>\<open>try\<close> after the file is parsed. The
  result is the message of the error thrown, or the provider and the model.
\<close>

definition select_usage :: "(jsval \<Rightarrow> jsval \<Rightarrow> bool) \<Rightarrow> jsval \<Rightarrow> string + (jsval \<times> jsval)" where
  "select_usage other metadata =
     (case read_property metadata ''model_usage'' of
        Inl message \<Rightarrow> Inl message
      | Inr model_usage \<Rightarrow>
          if \<not> truthy model_usage \<or> \<not> isArray model_usage \<or> length (elements model_usage) = 0
          then Inl ''Invalid metadata format: model_usage array missing or empty''
          else
            (case latest_entry other JNull (elements model_usage) of
               Inl message \<Rightarrow> Inl message
             | Inr latestEntry \<Rightarrow>
                 if \<not> truthy latestEntry
                    \<or> \<not> truthy (property latestEntry ''model_provider_id'')
                    \<or> \<not> truthy (property latestEntry ''model_id'')
                 then Inl ''Invalid metadata format: latest entry missing required fields''
                 else Inr (property latestEntry ''model_provider_id'',
                           property latestEntry ''model_id'')))"

text \<open>
  Lines 150 to 206: the file is read and parsed inside the \<^verbatim>\<open>try\<close>; every
  error raised there is thrown again with the prefix of line 205.
\<close>

definition metadataFilePath :: "env \<Rightarrow> string \<Rightarrow> number \<Rightarrow> string" where
  "metadataFilePath e finalBasePath highestOverallTaskNumber =
     path_join e [finalBasePath, number_toString e highestOverallTaskNumber,
                  ''task_metadata.json'']"

definition wrap_error :: "string \<Rightarrow> string" where
  "wrap_error errorMessage = ''Error reading or parsing metadata file: '' @ errorMessage"

definition read_metadata :: "env \<Rightarrow> string \<Rightarrow> number \<Rightarrow> string + api_metadata" where
  "read_metadata e finalBasePath highestOverallTaskNumber =
     (case read_json e (metadataFilePath e finalBasePath highestOverallTaskNumber) of
        ReadFails message \<Rightarrow> Inl (wrap_error message)
      | ParseFails message \<Rightarrow> Inl (wrap_error message)
      | Parsed metadata \<Rightarrow>
          (case select_usage (compare_other e) metadata of
             Inl message \<Rightarrow> Inl (wrap_error message)
           | Inr (provider, model) \<Rightarrow>
               Inr \<lparr>apiProvider = provider, modelName = model,
                    ideUsed = ide_of_path finalBasePath [''Code'', ''Cursor'', ''Windsurf'']\<rparr>))"

definition getApiMetadata :: "env \<Rightarrow> string + api_metadata" where
  "getApiMetadata e =
     (case possiblePaths e of
        Inl message \<Rightarrow> Inl message
      | Inr paths \<Rightarrow>
          (case scan e paths (Finite (- 1), None) of
             (highestOverallTaskNumber, None) \<Rightarrow> Inl ''Could not find any valid task directories''
           | (highestOverallTaskNumber, Some finalBasePath) \<Rightarrow>
               read_metadata e finalBasePath highestOverallTaskNumber))"

section \<open>The request handler (index.ts, setupToolHandlers)\<close>

definition gitHubLabels :: "string list" where
  "gitHubLabels =
     [''Bounty'', ''Bug'', ''dependencies'', ''documentation'', ''Enhancement'',
      ''Good First Issue'', ''Help Wanted'', ''In Progress'', ''Invalid'', ''javascript'',
      ''Question'', ''Reported by Cline'', ''RFR'', ''Triaged'', ''Won't/Unable to Fix'']"

text \<open>Lines 210 to 227. The properties are read only once the value is a non-null object.\<close>

definition isValidReportArgs :: "jsval \<Rightarrow> bool" where
  "isValidReportArgs args =
     (typeof args = ''object''
      \<and> args \<noteq> JNull
      \<and> typeof (property args ''description'') = ''string''
      \<and> typeof (property args ''title'') = ''string''
      \<and> (property args ''labels'' = JUndefined
           \<or> (isArray (property args ''labels'')
               \<and> list_all (\<lambda>l. typeof l = ''string'') (elements (property args ''labels'')))))"

text \<open>
  Lines 229 to 250: what the declared \<^verbatim>\<open>inputSchema\<close> accepts, read as a JSON
  Schema: an object with the required strings \<^verbatim>\<open>description\<close> and \<^verbatim>\<open>title\<close>,
  and, when \<^verbatim>\<open>labels\<close> is present, an array of strings of the enumeration.
  The handler never calls it; the schema is only listed with the two tools.
\<close>

definition inputSchema_accepts :: "jsval \<Rightarrow> bool" where
  "inputSchema_accepts args =
     (case args of
        JObj kvs \<Rightarrow>
          typeof (property args ''description'') = ''string''
          \<and> typeof (property args ''title'') = ''string''
          \<and> (case map_of kvs ''labels'' of
                None \<Rightarrow> True
              | Some ls \<Rightarrow>
                  isArray ls
                  \<and> list_all (\<lambda>l. typeof l = ''string'' \<and> string_of l \<in> set gitHubLabels)
                       (elements ls))
      | _ \<Rightarrow> False)"

record request =
  tool_name :: string
  arguments :: jsval

datatype error_code = MethodNotFound | InvalidParams | InternalError

text \<open>
  A response is one text item and the error flag (absent in the source is
  \<open>False\<close> here). The text of a preview is \<^verbatim>\<open>JSON.stringify\<close> of an object
  with four fields; it is kept as that object.
\<close>

record issue_preview =
  preview_title :: string
  preview_body :: string
  preview_labels :: jsval
  preview_repository :: string

datatype content = Text string | Json issue_preview

record response =
  content :: content
  isError :: bool

datatype outcome = Thrown error_code string | Returned response

text \<open>
  Line 360: \<^verbatim>\<open>stdout.match(/saoudrizwan\.claude-dev@([\d.]+)/)\<close>, the leftmost
  place where the extension's name is followed by at least one digit or dot;
  the result is the captured group, the longest run of digits and dots there.
\<close>

definition version_char :: "char \<Rightarrow> bool" where
  "version_char c = (is_digit c \<or> c = CHR ''.'')"

definition extension_at :: string where
  "extension_at = ''saoudrizwan.claude-dev@''"

fun match_version :: "string \<Rightarrow> string option" where
  "match_version [] = None"
| "match_version (c # cs) =
     (if starts_with (c # cs) extension_at
         \<and> takeWhile version_char (drop (length extension_at) (c # cs)) \<noteq> []
      then Some (takeWhile version_char (drop (length extension_at) (c # cs)))
      else match_version cs)"

text \<open>
  Lines 347 to 377: the loop over the IDE commands. The result is the version
  and the commands that were run, in order.
\<close>

definition list_command :: "string \<Rightarrow> string \<Rightarrow> string" where
  "list_command searchCmd ide =
     ide @ '' --list-extensions --show-versions | '' @ searchCmd @ '' saoudrizwan.claude-dev''"

definition after_command :: "string \<Rightarrow> string \<times> string list \<Rightarrow> string \<times> string list" where
  "after_command command r = (fst r, command # snd r)"

fun detect_version :: "env \<Rightarrow> string \<Rightarrow> string list \<Rightarrow> string \<times> string list" where
  "detect_version e searchCmd [] = (''unknown'', [])"
| "detect_version e searchCmd (ide # rest) =
     (case execAsync e (list_command searchCmd ide) of
        Rejected err \<Rightarrow>
          after_command (list_command searchCmd ide) (detect_version e searchCmd rest)
      | Completed stdout stderr \<Rightarrow>
          (case match_version stdout of
             None \<Rightarrow>
               after_command (list_command searchCmd ide) (detect_version e searchCmd rest)
           | Some version \<Rightarrow>
               if version \<noteq> [] then (version, [list_command searchCmd ide])
               else after_command (list_command searchCmd ide)
                      (detect_version e searchCmd rest)))"

definition searchCmd :: "env \<Rightarrow> string" where
  "searchCmd e = (if platform e = ''win32'' then ''findstr'' else ''grep'')"

definition ides :: "string list" where
  "ides = [''code'', ''cursor'', ''windsurf'']"

definition clineVersion :: "env \<Rightarrow> string \<times> string list" where
  "clineVersion e = detect_version e (searchCmd e) ides"

text \<open>
  Lines 380 to 390. The provider and the model are values of the sidecar, so
  that their conversion to text can raise; the other parts are strings.
\<close>

definition description_header :: string where
  "description_header = [newline] @ ''---'' @ [newline, newline] @ ''**Description:**'' @ [newline]"

definition formattedBody :: "env \<Rightarrow> api_metadata \<Rightarrow> string \<Rightarrow> string \<Rightarrow> string + string" where
  "formattedBody e apiMetadata version description =
     (case js_to_string (number_toString e) (apiProvider apiMetadata) of
        Inl message \<Rightarrow> Inl message
      | Inr provider \<Rightarrow>
          (case js_to_string (number_toString e) (modelName apiMetadata) of
             Inl message \<Rightarrow> Inl message
           | Inr model \<Rightarrow>
               Inr (''**Reported by:** User via Cline Issue Reporter MCP'' @ [newline]
                    @ ''**Cline Version:** '' @ version @ [newline]
                    @ ''**IDE:** '' @ ideUsed apiMetadata @ [newline]
                    @ ''**OS:** '' @ platform e @ '' ('' @ release e @ '')'' @ [newline]
                    @ ''**API Provider:** '' @ provider @ [newline]
                    @ ''**Model:** '' @ model @ [newline]
                    @ description_header @ description)))"

text \<open>Lines 414 to 425.\<close>

definition ghCommand :: "string \<Rightarrow> string \<Rightarrow> string \<Rightarrow> jsval \<Rightarrow> string" where
  "ghCommand repo title body labels =
     ''gh issue create --repo '' @ escapeShellArg repo
     @ '' --title '' @ escapeShellArg title
     @ '' --body '' @ escapeShellArg body
     @ (if truthy labels \<and> length (elements labels) > 0
        then '' --label '' @ join '','' (map (\<lambda>l. escapeShellArg (string_of l)) (elements labels))
        else [])"

text \<open>
  Lines 459 to 508: the \<^verbatim>\<open>catch\<close> around the body of the handler. It
  receives the rejection of the \<^verbatim>\<open>gh\<close> command and every error raised
  after the metadata was located.
\<close>

definition caught :: "caught_error \<Rightarrow> outcome" where
  "caught err =
     (if error_stderr err \<noteq> [] \<or> error_stdout err \<noteq> [] \<or> error_message err \<noteq> [] then
        (let errorMessage =
               (if error_stderr err \<noteq> [] then error_stderr err
                else if error_stdout err \<noteq> [] then error_stdout err
                else error_message err)
         in
           if str_includes errorMessage ''gh not found''
              \<or> str_includes errorMessage ''command not found''
           then Returned \<lparr>content = Text ''Error: GitHub CLI ('gh') not found. Please install it and authenticate (`gh auth login`).'',
                           isError = True\<rparr>
           else if str_includes errorMessage ''authentication required''
           then Returned \<lparr>content = Text ''Error: GitHub CLI authentication required. Please run `gh auth login`.'',
                           isError = True\<rparr>
           else Returned \<lparr>content = Text (''Command execution failed: '' @ errorMessage),
                           isError = True\<rparr>)
      else Thrown InternalError (''Failed to report issue: '' @ error_message err))"

text \<open>Lines 429 to 458: what the handler makes of the outcome of the \<^verbatim>\<open>gh\<close> command.\<close>

definition report_outcome :: "exec_result \<Rightarrow> outcome" where
  "report_outcome r =
     (case r of
        Completed ghStdout ghStderr \<Rightarrow>
          if ghStderr \<noteq> [] \<and> ghStdout = [] then
            Returned \<lparr>content = Text (''GitHub CLI Error: '' @ ghStderr), isError = True\<rparr>
          else
            Returned \<lparr>content = Text (if ghStdout \<noteq> [] then ghStdout
                                        else ''Issue reported successfully (no stdout from gh).''),
                      isError = False\<rparr>
      | Rejected err \<Rightarrow> caught err)"

text \<open>
  Lines 297 to 509. The second component is the list of the commands given
  to \<^verbatim>\<open>execAsync\<close>, in order. A TypeError of the template has a message
  and neither of the other two properties.
\<close>

definition handler :: "env \<Rightarrow> request \<Rightarrow> outcome \<times> string list" where
  "handler e request =
     (if tool_name request \<noteq> ''report_cline_issue'' \<and> tool_name request \<noteq> ''preview_cline_issue''
      then (Thrown MethodNotFound (''Unknown tool: '' @ tool_name request), [])
      else if \<not> isValidReportArgs (arguments request)
      then (Thrown InvalidParams
              (''Invalid arguments for '' @ tool_name request
               @ ''. Requires: description (string), title (string), labels (string[], optional).''),
            [])
      else
        (let description = string_of (property (arguments request) ''description'');
             title = string_of (property (arguments request) ''title'');
             labels = property (arguments request) ''labels'';
             repo = ''cline/cline''
         in
           case getApiMetadata e of
             Inl errorMessage \<Rightarrow>
               (Returned \<lparr>content = Text (''Error retrieving API metadata: '' @ errorMessage
                            @ ''. Please try again or provide apiProvider and modelName manually.''),
                          isError = True\<rparr>,
                [])
           | Inr apiMetadata \<Rightarrow>
               (let probe = clineVersion e in
                  case formattedBody e apiMetadata (fst probe) description of
                    Inl message \<Rightarrow>
                      (caught \<lparr>error_stderr = [], error_stdout = [], error_message = message\<rparr>,
                       snd probe)
                  | Inr body \<Rightarrow>
                      if tool_name request = ''preview_cline_issue'' then
                        (Returned \<lparr>content = Json \<lparr>preview_title = title, preview_body = body,
                                     preview_labels = (if truthy labels then labels else JArr []),
                                     preview_repository = repo\<rparr>,
                                   isError = False\<rparr>,
                         snd probe)
                      else
                        (report_outcome (execAsync e (ghCommand repo title body labels)),
                         snd probe @ [ghCommand repo title body labels]))))"

section \<open>Notions of the specification\<close>

text \<open>
  The names of the numeric subdirectories of a candidate directory, and the
  numbers that the program reads from them: none when the directory is missing
  or unreadable. \<open>holds_maximum e m p\<close> says that the greatest number under
  \<open>p\<close> is \<open>m\<close>.
\<close>

definition task_names :: "env \<Rightarrow> string \<Rightarrow> string list" where
  "task_names e p =
     (case list_dir e p of
        Listing entries \<Rightarrow>
          map entry_name (filter (\<lambda>entry. isDirectory entry \<and> all_digits (entry_name entry)) entries)
      | _ \<Rightarrow> [])"

definition task_numbers :: "env \<Rightarrow> string \<Rightarrow> number list" where
  "task_numbers e p = (case list_dir e p of Listing entries \<Rightarrow> numericDirs entries | _ \<Rightarrow> [])"

definition all_task_numbers :: "env \<Rightarrow> string list \<Rightarrow> number set" where
  "all_task_numbers e paths = (\<Union>p \<in> set paths. set (task_numbers e p))"

definition all_task_values :: "env \<Rightarrow> string list \<Rightarrow> nat set" where
  "all_task_values e paths = (\<Union>p \<in> set paths. decimal_value ` set (task_names e p))"

definition holds_maximum :: "env \<Rightarrow> number \<Rightarrow> string \<Rightarrow> bool" where
  "holds_maximum e m p = (task_numbers e p \<noteq> [] \<and> Max (set (task_numbers e p)) = m)"

text \<open>The candidate directory of one IDE, on a host where the directories can be named.\<close>

definition storage_root :: "env \<Rightarrow> string list" where
  "storage_root e =
     (if platform e = ''win32'' then [case APPDATA e of None \<Rightarrow> [] | Some appData \<Rightarrow> appData]
      else if platform e = ''darwin'' then [homedir e, ''Library'', ''Application Support'']
      else [homedir e, ''.config''])"

definition candidate :: "env \<Rightarrow> string \<Rightarrow> string" where
  "candidate e app =
     path_join e (storage_root e
                  @ [app, ''User'', ''globalStorage'', ''saoudrizwan.claude-dev'', ''tasks''])"

text \<open>
  A usage entry of the data model is an object with a numeric timestamp.
  \<open>latest_by_ts\<close> is the entry with the greatest timestamp, the earliest one
  among equals; it is computed from the right, unlike the program's loop.
\<close>

definition timestamped :: "jsval \<Rightarrow> bool" where
  "timestamped v = (case v of JObj kvs \<Rightarrow> is_number (property v ''ts'') | _ \<Rightarrow> False)"

definition ts_of :: "jsval \<Rightarrow> number" where
  "ts_of v = number_of (property v ''ts'')"

definition later_of :: "jsval \<Rightarrow> jsval option \<Rightarrow> jsval option" where
  "later_of x r = (case r of None \<Rightarrow> Some x | Some w \<Rightarrow> if ts_of w > ts_of x then Some w else Some x)"

fun latest_by_ts :: "jsval list \<Rightarrow> jsval option" where
  "latest_by_ts [] = None"
| "latest_by_ts (x # xs) = later_of x (latest_by_ts xs)"





definition sidecar :: "env \<Rightarrow> file_result option" where
  "sidecar e =
     (case possiblePaths e of
        Inl message \<Rightarrow> None
      | Inr paths \<Rightarrow>
          (case find (holds_maximum e (Max (all_task_numbers e paths))) paths of
             None \<Rightarrow> None
           | Some base \<Rightarrow>
               Some (read_json e (metadataFilePath e base (Max (all_task_numbers e paths))))))"


definition usage_entries :: "jsval \<Rightarrow> jsval list" where
  "usage_entries metadata = elements (property metadata ''model_usage'')"




text \<open>What one IDE command yields: its version if it ran and its output matches.\<close>

definition probe_version :: "env \<Rightarrow> string \<Rightarrow> string \<Rightarrow> string option" where
  "probe_version e search ide =
     (case execAsync e (list_command search ide) of
        Completed stdout stderr \<Rightarrow> match_version stdout
      | Rejected err \<Rightarrow> None)"

text \<open>
  The body of a request, and the command that a report request gives to the
  shell; each is the message of the TypeError when the provider or the model
  cannot be converted to text.
\<close>

definition request_body :: "env \<Rightarrow> api_metadata \<Rightarrow> jsval \<Rightarrow> string + string" where
  "request_body e apiMetadata args =
     formattedBody e apiMetadata (fst (clineVersion e)) (string_of (property args ''description''))"

definition report_command :: "env \<Rightarrow> api_metadata \<Rightarrow> jsval \<Rightarrow> string + string" where
  "report_command e apiMetadata args =
     (case request_body e apiMetadata args of
        Inl message \<Rightarrow> Inl message
      | Inr body \<Rightarrow>
          Inr (ghCommand ''cline/cline'' (string_of (property args ''title'')) body
                 (property args ''labels'')))"

section \<open>Sample environments\<close>

text \<open>
  Decimal digits of an integer, as \<^verbatim>\<open>Number.prototype.toString\<close> prints the
  integers below \<open>2 ^ 53\<close>; the sample hosts print no other number.
\<close>

definition digit_char :: "nat \<Rightarrow> char" where
  "digit_char d = ''0123456789'' ! d"

fun show_nat :: "nat \<Rightarrow> string" where
  "show_nat n = (if n < 10 then [digit_char n] else show_nat (n div 10) @ [digit_char (n mod 10)])"

declare show_nat.simps [simp del]

definition sample_number_text :: "number \<Rightarrow> string" where
  "sample_number_text n =
     (case n of
        MinusInfinity \<Rightarrow> ''-Infinity''
      | Finite r \<Rightarrow> (if r < 0 then ''-'' @ show_nat (nat (- \<lfloor>r\<rfloor>)) else show_nat (nat \<lfloor>r\<rfloor>))
      | PlusInfinity \<Rightarrow> ''Infinity'')"

text \<open>
  A Linux host with the home directory \<^verbatim>\<open>/home/u\<close>, given by the directories
  that exist, the files that can be read and the commands that succeed.
\<close>

definition tasks_dir :: "string \<Rightarrow> string" where
  "tasks_dir app =
     ''/home/u/.config/'' @ app @ ''/User/globalStorage/saoudrizwan.claude-dev/tasks''"

definition subdirectory :: "string \<Rightarrow> dirent" where
  "subdirectory s = \<lparr>entry_name = s, isDirectory = True\<rparr>"

definition sample_env ::
  "(string \<times> dirent list) list \<Rightarrow> (string \<times> file_result) list
     \<Rightarrow> (string \<times> exec_result) list \<Rightarrow> env" where
  "sample_env dirs files commands =
     \<lparr>platform = ''linux'', release = ''6.1'', homedir = ''/home/u'', APPDATA = None,
      path_join = join ''/'',
      number_toString = sample_number_text,
      list_dir = (\<lambda>p. case map_of dirs p of None \<Rightarrow> StatFails | Some entries \<Rightarrow> Listing entries),
      read_json = (\<lambda>p. case map_of files p of
                         None \<Rightarrow> ReadFails ''ENOENT: no such file or directory''
                       | Some r \<Rightarrow> r),
      execAsync = (\<lambda>c. case map_of commands c of
                         None \<Rightarrow> Rejected \<lparr>error_stderr = [], error_stdout = [],
                                           error_message = ''Command failed: '' @ c\<rparr>
                       | Some r \<Rightarrow> r),
      compare_other = (\<lambda>a b. False)\<rparr>"

definition sample_paths :: "string list" where
  "sample_paths = [tasks_dir ''Code'', tasks_dir ''Cursor'', tasks_dir ''Windsurf'']"

text \<open>
  Task 3 under Code, task 12 under Cursor, no Windsurf; Cursor lists the
  extension; the sidecar of task 12 parses to the given value.
\<close>

definition sidecar_env :: "jsval \<Rightarrow> env" where
  "sidecar_env metadata = sample_env
     [(tasks_dir ''Code'', [subdirectory ''3'', subdirectory ''notes'']),
      (tasks_dir ''Cursor'', [subdirectory ''12'', \<lparr>entry_name = ''40'', isDirectory = False\<rparr>])]
     [(tasks_dir ''Cursor'' @ ''/12/task_metadata.json'', Parsed metadata)]
     [(''cursor --list-extensions --show-versions | grep saoudrizwan.claude-dev'',
       Completed ''saoudrizwan.claude-dev@3.2.1'' [])]"

definition sample_usage :: jsval where
  "sample_usage =
     JArr [JObj [(''ts'', JNum (Finite 1)), (''model_provider_id'', JStr ''p0''),
                 (''model_id'', JStr ''m0'')],
           JObj [(''ts'', JNum (Finite 5)), (''model_provider_id'', JStr ''P''),
                 (''model_id'', JStr ''M'')],
           JObj [(''ts'', JNum (Finite 3)), (''model_provider_id'', JStr ''p1''),
                 (''model_id'', JStr ''m1'')]]"

definition cursor_env :: env where
  "cursor_env = sidecar_env (JObj [(''model_usage'', sample_usage)])"

text \<open>
  Sidecars outside the data model: a first entry without a timestamp; a null
  entry; a provider that is an object with a key \<^verbatim>\<open>toString\<close>.
\<close>

definition untimed_usage :: jsval where
  "untimed_usage =
     JArr [JObj [(''model_provider_id'', JStr ''p0''), (''model_id'', JStr ''m0'')],
           JObj [(''ts'', JNum (Finite 5)), (''model_provider_id'', JStr ''P''),
                 (''model_id'', JStr ''M'')]]"

definition untimed_env :: env where
  "untimed_env = sidecar_env (JObj [(''model_usage'', untimed_usage)])"



definition opaque_usage :: jsval where
  "opaque_usage =
     JArr [JObj [(''ts'', JNum (Finite 1)),
                 (''model_provider_id'', JObj [(''toString'', JNum (Finite 1))]),
                 (''model_id'', JStr ''M'')]]"

definition opaque_env :: env where
  "opaque_env = sidecar_env (JObj [(''model_usage'', opaque_usage)])"

text \<open>Task 12 under both Code and Cursor; no IDE lists the extension.\<close>

definition tie_env :: env where
  "tie_env = sample_env
     [(tasks_dir ''Code'', [subdirectory ''3'', subdirectory ''12'']),
      (tasks_dir ''Cursor'', [subdirectory ''12''])]
     [(tasks_dir ''Code'' @ ''/12/task_metadata.json'',
       Parsed (JObj [(''model_usage'', sample_usage)]))]
     []"

text \<open>
  Task numbers from \<open>2 ^ 53\<close> on: 9007199254740993 is not a double. The
  double 9007199254740992 prints with all its digits.
\<close>

definition rounding_env :: env where
  "rounding_env = sample_env
     [(tasks_dir ''Code'', [subdirectory ''9007199254740992'']),
      (tasks_dir ''Cursor'', [subdirectory ''9007199254740993'']),
      (tasks_dir ''Windsurf'', [subdirectory ''9007199254740993''])]
     [(tasks_dir ''Code'' @ ''/9007199254740992/task_metadata.json'',
       Parsed (JObj [(''model_usage'', sample_usage)]))]
     []"

text \<open>
  A host without any task directory; the host of \<open>cursor_env\<close> where every
  \<^verbatim>\<open>gh\<close> command has the outcome \<open>r\<close>; the same host under an operating
  system without a storage convention; two argument objects.
\<close>

definition empty_env :: env where
  "empty_env = sample_env [] [] []"

definition gh_env :: "exec_result \<Rightarrow> env" where
  "gh_env r = cursor_env\<lparr>execAsync :=
     (\<lambda>c. if starts_with c ''gh '' then r else execAsync cursor_env c)\<rparr>"


definition sample_args :: "jsval" where
  "sample_args = JObj [(''title'', JStr ''T''), (''description'', JStr ''D'')]"

definition labelled_args :: "jsval" where
  "labelled_args =
     JObj [(''title'', JStr ''T''), (''description'', JStr ''D''),
           (''labels'', JArr [JStr ''Bug'', JStr ''not-a-label''])]"

section \<open>Properties of the shell escaping\<close>

lemma sh_quoted_escaped:
  "sh_quoted acc (concat (map replace_quote s) @ quote # rest)
     = sh_unquoted (Some (acc @ s)) rest"
proof (induction s arbitrary: acc)
  case Nil
  show ?case by simp
next
  case (Cons c s)
  show ?case
  proof (cases "c = quote")
    case True
    have "sh_quoted acc (concat (map replace_quote (c # s)) @ quote # rest)
            = sh_quoted (acc @ [quote]) (concat (map replace_quote s) @ quote # rest)"
      using True
      by (simp add: replace_quote_def word_so_far_def quote_def backslash_def newline_def tab_def)
    also have "\<dots> = sh_unquoted (Some ((acc @ [quote]) @ s)) rest"
      by (rule Cons.IH)
    finally show ?thesis using True by simp
  next
    case False
    have "sh_quoted acc (concat (map replace_quote (c # s)) @ quote # rest)
            = sh_quoted (acc @ [c]) (concat (map replace_quote s) @ quote # rest)"
      using False by (simp add: replace_quote_def)
    also have "\<dots> = sh_unquoted (Some ((acc @ [c]) @ s)) rest"
      by (rule Cons.IH)
    finally show ?thesis by simp
  qed
qed

lemma sh_unquoted_escapeShellArg:
  "sh_unquoted w (escapeShellArg s @ rest) = sh_unquoted (Some (word_so_far w @ s)) rest"
  by (simp add: escapeShellArg_def sh_quoted_escaped)

section \<open>The scan of the candidate directories\<close>

lemma foldl_max_Max: "foldl max (n::number) ns = Max (set (n # ns))"
proof (induction ns arbitrary: n)
  case Nil
  show ?case by simp
next
  case (Cons a ns)
  have "foldl max n (a # ns) = Max (set (max n a # ns))"
    using Cons.IH [of "max n a"] by simp
  also have "\<dots> = Max (set (n # a # ns))"
    by (cases "set ns = {}") (simp_all add: ac_simps)
  finally show ?case .
qed

lemma scan_step:
  "scan e (p # rest) (h, f) =
     scan e rest (if task_numbers e p \<noteq> [] \<and> Max (set (task_numbers e p)) > h
                  then (Max (set (task_numbers e p)), Some p) else (h, f))"
proof (cases "list_dir e p")
  case (Listing entries)
  show ?thesis
  proof (cases "numericDirs entries")
    case Nil
    with Listing show ?thesis by (simp add: task_numbers_def)
  next
    case (Cons n ns)
    have "foldl max n ns = Max (set (n # ns))" by (rule foldl_max_Max)
    with Listing Cons show ?thesis by (simp add: task_numbers_def Let_def)
  qed
qed (simp_all add: task_numbers_def)

lemma below_natural: "Finite (- 1) < Finite (of_nat m)"
  by (simp add: less_number_def less_eq_number_def)

lemma below_infinity: "Finite (- 1) < PlusInfinity"
  by (simp add: less_number_def less_eq_number_def)

lemma round_to_double_nonneg: "Finite (- 1) < round_to_double n"
  unfolding round_to_double_def Let_def
  by (simp only: below_natural below_infinity if_split) simp

lemma numericDirs_nonneg: "n \<in> set (numericDirs entries) \<Longrightarrow> Finite (- 1) < n"
  by (auto simp: numericDirs_def parseInt_def round_to_double_nonneg)

lemma task_numbers_nonneg: "n \<in> set (task_numbers e p) \<Longrightarrow> Finite (- 1) < n"
  by (auto simp: task_numbers_def numericDirs_nonneg split: dir_result.splits)

lemma finite_all_task_numbers: "finite (all_task_numbers e paths)"
  by (simp add: all_task_numbers_def)

lemma all_task_numbers_Cons:
  "all_task_numbers e (p # rest) = set (task_numbers e p) \<union> all_task_numbers e rest"
  by (simp add: all_task_numbers_def)

lemma scan_fst:
  "fst (scan e paths (h, f)) = Max (insert h (all_task_numbers e paths))"
proof (induction paths arbitrary: h f)
  case Nil
  show ?case by (simp add: all_task_numbers_def)
next
  case (Cons p rest)
  let ?ns = "set (task_numbers e p)"
  let ?R = "all_task_numbers e rest"
  have fin: "finite ?R" by (rule finite_all_task_numbers)
  show ?case
  proof (cases "task_numbers e p = []")
    case True
    then show ?thesis by (simp add: scan_step Cons.IH all_task_numbers_Cons del: scan.simps)
  next
    case False
    then have ne: "?ns \<noteq> {}" by simp
    have regroup: "Max (insert h (?ns \<union> ?R)) = Max (insert (max h (Max ?ns)) ?R)"
    proof -
      have "insert h (?ns \<union> ?R) = (insert h ?ns) \<union> ?R" by simp
      have "Max (insert h (?ns \<union> ?R)) = Max (insert h ?ns \<union> ?R)" by simp
      show ?thesis
      proof (cases "?R = {}")
        case True
        then show ?thesis using ne by (simp add: max.commute)
      next
        case False
        have "Max (insert h ?ns \<union> ?R) = max (Max (insert h ?ns)) (Max ?R)"
          using fin False by (intro Max_Un) simp_all
        also have "\<dots> = max (max h (Max ?ns)) (Max ?R)" using ne by simp
        also have "\<dots> = Max (insert (max h (Max ?ns)) ?R)" using fin False by simp
        finally show ?thesis by simp
      qed
    qed
    show ?thesis
    proof (cases "Max ?ns > h")
      case True
      then have "max h (Max ?ns) = Max ?ns" by simp
      with True False show ?thesis
        by (simp add: scan_step Cons.IH all_task_numbers_Cons regroup del: scan.simps)
    next
      case False
      then have "max h (Max ?ns) = h" by simp
      with False show ?thesis
        by (simp add: scan_step Cons.IH all_task_numbers_Cons regroup del: scan.simps)
    qed
  qed
qed

lemma scan_fst_ge: "h \<le> fst (scan e paths (h, f))"
  by (simp add: scan_fst finite_all_task_numbers)

lemma scan_snd:
  "snd (scan e paths (h, f)) =
     (if fst (scan e paths (h, f)) > h
      then find (holds_maximum e (fst (scan e paths (h, f)))) paths
      else f)"
proof (induction paths arbitrary: h f)
  case Nil
  show ?case by simp
next
  case (Cons p rest)
  let ?m = "Max (set (task_numbers e p))"
  show ?case
  proof (cases "task_numbers e p \<noteq> [] \<and> ?m > h")
    case True
    then have step: "scan e (p # rest) (h, f) = scan e rest (?m, Some p)"
      by (simp add: scan_step del: scan.simps)
    have ge: "?m \<le> fst (scan e rest (?m, Some p))" by (rule scan_fst_ge)
    show ?thesis
    proof (cases "fst (scan e rest (?m, Some p)) > ?m")
      case above: True
      then have "\<not> holds_maximum e (fst (scan e rest (?m, Some p))) p"
        by (auto simp: holds_maximum_def)
      moreover have "h < fst (scan e rest (?m, Some p))"
      proof -
        from True have "h < ?m" by blast
        from this above show ?thesis by (rule less_trans)
      qed
      ultimately show ?thesis
        using above Cons.IH [of ?m "Some p"] by (simp add: step del: scan.simps)
    next
      case False
      with ge have eq: "fst (scan e rest (?m, Some p)) = ?m" by simp
      then have "snd (scan e rest (?m, Some p)) = Some p"
        using Cons.IH [of ?m "Some p"] by simp
      with eq True show ?thesis by (simp add: step holds_maximum_def del: scan.simps)
    qed
  next
    case False
    then have step: "scan e (p # rest) (h, f) = scan e rest (h, f)"
      by (auto simp: scan_step simp del: scan.simps)
    show ?thesis
    proof (cases "fst (scan e rest (h, f)) > h")
      case above: True
      with False have "\<not> holds_maximum e (fst (scan e rest (h, f))) p"
        by (auto simp: holds_maximum_def)
      with above show ?thesis using Cons.IH [of h f] by (simp add: step del: scan.simps)
    next
      case False
      then show ?thesis using Cons.IH [of h f] by (simp add: step del: scan.simps)
    qed
  qed
qed

lemma scan_found:
  assumes "\<exists>p \<in> set paths. task_numbers e p \<noteq> []"
  shows "\<exists>q. scan e paths (Finite (- 1), None) = (Max (all_task_numbers e paths), Some q)
           \<and> find (holds_maximum e (Max (all_task_numbers e paths))) paths = Some q"
proof -
  let ?A = "all_task_numbers e paths"
  from assms obtain p n where p: "p \<in> set paths" "n \<in> set (task_numbers e p)"
    by (metis last_in_set)
  then have nA: "n \<in> ?A" by (auto simp: all_task_numbers_def)
  have fin: "finite ?A" by (rule finite_all_task_numbers)
  have "Finite (- 1) < n" using p(2) by (rule task_numbers_nonneg)
  also have "n \<le> Max ?A" using fin nA by simp
  finally have pos: "Finite (- 1) < Max ?A" .
  have "?A \<noteq> {}" using nA by auto
  then have "Max (insert (Finite (- 1)) ?A) = max (Finite (- 1)) (Max ?A)" using fin by simp
  with pos have fst_eq: "fst (scan e paths (Finite (- 1), None)) = Max ?A"
    by (simp add: scan_fst)
  with pos have snd_eq: "snd (scan e paths (Finite (- 1), None)) = find (holds_maximum e (Max ?A)) paths"
    using scan_snd [of e paths "Finite (- 1)" None] by simp
  have "Max ?A \<in> ?A" using fin \<open>?A \<noteq> {}\<close> by (rule Max_in)
  then obtain q where q: "q \<in> set paths" "Max ?A \<in> set (task_numbers e q)"
    by (auto simp: all_task_numbers_def)
  have "\<forall>x \<in> set (task_numbers e q). x \<le> Max ?A"
    using fin q(1) by (auto simp: all_task_numbers_def intro!: Max_ge)
  with q(2) have "Max (set (task_numbers e q)) = Max ?A"
    by (intro Max_eqI) auto
  with q have "holds_maximum e (Max ?A) q" by (auto simp: holds_maximum_def)
  with q(1) obtain r where "find (holds_maximum e (Max ?A)) paths = Some r"
    by (cases "find (holds_maximum e (Max ?A)) paths") (auto simp: find_None_iff)
  with fst_eq snd_eq show ?thesis by (metis prod.collapse)
qed

section \<open>The latest usage entry\<close>

lemma timestamped_truthy: "timestamped v \<Longrightarrow> truthy v"
  by (cases v) (simp_all add: timestamped_def)

lemma timestamped_read: "timestamped v \<Longrightarrow> read_property v k = Inr (property v k)"
  by (cases v) (simp_all add: timestamped_def read_property_def)

lemma timestamped_gt:
  "timestamped a \<Longrightarrow> timestamped b \<Longrightarrow>
     js_gt other (property a ''ts'') (property b ''ts'') = (ts_of a > ts_of b)"
  by (cases a; cases b) (simp_all add: timestamped_def js_gt_def ts_of_def)

lemma latest_entry_step:
  "timestamped l \<Longrightarrow> timestamped c \<Longrightarrow>
     latest_entry other l (c # rest) = latest_entry other (if ts_of c > ts_of l then c else l) rest"
  by (simp add: timestamped_truthy timestamped_read timestamped_gt)

lemma latest_by_ts_two:
  "latest_by_ts (l # c # rest) = latest_by_ts ((if ts_of c > ts_of l then c else l) # rest)"
  by (cases "latest_by_ts rest") (auto simp: later_of_def)

lemma latest_by_ts_Some: "latest_by_ts (x # xs) \<noteq> None"
  by (simp add: later_of_def split: option.splits)

lemma latest_entry_from:
  "timestamped l \<Longrightarrow> \<forall>x \<in> set xs. timestamped x \<Longrightarrow>
     latest_by_ts (l # xs) = Some w \<Longrightarrow> latest_entry other l xs = Inr w"
proof (induction xs arbitrary: l)
  case Nil
  then show ?case by (simp add: later_of_def)
next
  case (Cons c rest)
  let ?m = "if ts_of c > ts_of l then c else l"
  have m: "timestamped ?m" using Cons.prems by simp
  have "latest_by_ts (?m # rest) = Some w"
    using Cons.prems(3) by (simp only: latest_by_ts_two)
  with m Cons.prems(2) have "latest_entry other ?m rest = Inr w"
    by (intro Cons.IH) simp_all
  moreover have "latest_entry other l (c # rest) = latest_entry other ?m rest"
    using Cons.prems by (intro latest_entry_step) simp_all
  ultimately show ?case by simp
qed

lemma latest_entry_well_formed:
  assumes "\<forall>x \<in> set entries. timestamped x" and "latest_by_ts entries = Some w"
  shows "latest_entry other JNull entries = Inr w"
proof (cases entries)
  case Nil
  with assms show ?thesis by simp
next
  case (Cons x xs)
  with assms have "latest_entry other x xs = Inr w"
    by (intro latest_entry_from) simp_all
  with Cons show ?thesis by simp
qed

lemma latest_by_ts_mem: "latest_by_ts xs = Some w \<Longrightarrow> w \<in> set xs"
  by (induction xs arbitrary: w) (auto simp: later_of_def split: option.splits if_splits)

lemma latest_by_ts_max: "latest_by_ts xs = Some w \<Longrightarrow> x \<in> set xs \<Longrightarrow> ts_of x \<le> ts_of w"
proof (induction xs arbitrary: w x)
  case Nil
  then show ?case by simp
next
  case (Cons a xs)
  show ?case
  proof (cases "latest_by_ts xs")
    case None
    then have "xs = []" using latest_by_ts_Some by (cases xs) blast+
    with Cons.prems None show ?thesis by (simp add: later_of_def)
  next
    case (Some v)
    have IH: "y \<in> set xs \<Longrightarrow> ts_of y \<le> ts_of v" for y
      using Cons.IH [OF Some] .
    show ?thesis
    proof (cases "ts_of v > ts_of a")
      case True
      with Some Cons.prems(1) have "w = v" by (simp add: later_of_def)
      with True Cons.prems(2) IH show ?thesis by auto
    next
      case False
      with Some Cons.prems(1) have "w = a" by (simp add: later_of_def)
      with False Cons.prems(2) IH show ?thesis by fastforce
    qed
  qed
qed

lemma latest_by_ts_first:
  "latest_by_ts xs = Some w \<Longrightarrow> \<exists>pre post. xs = pre @ w # post \<and> (\<forall>x \<in> set pre. ts_of x < ts_of w)"
proof (induction xs arbitrary: w)
  case Nil
  then show ?case by simp
next
  case (Cons a xs)
  show ?case
  proof (cases "latest_by_ts xs")
    case None
    with Cons.prems have "w = a" by (simp add: later_of_def)
    then have "a # xs = [] @ w # xs \<and> (\<forall>x \<in> set []. ts_of x < ts_of w)" by simp
    then show ?thesis by blast
  next
    case (Some v)
    show ?thesis
    proof (cases "ts_of v > ts_of a")
      case True
      with Some Cons.prems have wv: "w = v" by (simp add: later_of_def)
      from Cons.IH [OF Some] obtain pre post
        where "xs = pre @ v # post" "\<forall>x \<in> set pre. ts_of x < ts_of v" by blast
      with True wv have "a # xs = (a # pre) @ w # post \<and> (\<forall>x \<in> set (a # pre). ts_of x < ts_of w)"
        by simp
      then show ?thesis by blast
    next
      case False
      with Some Cons.prems have "w = a" by (simp add: later_of_def)
      then have "a # xs = [] @ w # xs \<and> (\<forall>x \<in> set []. ts_of x < ts_of w)" by simp
      then show ?thesis by blast
    qed
  qed
qed

section \<open>Evaluation of the sample environments\<close>

lemma show_nat_12: "show_nat 12 = ''12''"
  by (simp add: show_nat.simps digit_char_def)

lemma sample_number_text_12: "sample_number_text (Finite 12) = ''12''"
  by (simp add: sample_number_text_def show_nat_12)

lemma parseInt_small:
  "parseInt ''3'' = Finite 3" "parseInt ''12'' = Finite 12"
  by (simp_all add: parseInt_def decimal_value_def digit_value_def round_to_double_def)

lemma bit_length_big:
  "bit_length 9007199254740992 = 54" "bit_length 9007199254740993 = 54"
  by (simp_all add: bit_length.simps)

lemma decimal_value_big:
  "decimal_value ''9007199254740992'' = 9007199254740992"
  "decimal_value ''9007199254740993'' = 9007199254740993"
  by (simp_all add: decimal_value_def digit_value_def)

lemma parseInt_big:
  "parseInt ''9007199254740992'' = Finite 9007199254740992"
  "parseInt ''9007199254740993'' = Finite 9007199254740992"
  by (simp_all add: parseInt_def decimal_value_big round_to_double_def bit_length_big Let_def)

lemmas sample_simps =
  sample_env_def tasks_dir_def subdirectory_def sample_paths_def ideApps_def
  numericDirs_def all_digits_def is_digit_def task_numbers_def task_names_def

lemma sidecar_env_paths: "possiblePaths (sidecar_env metadata) = Inr sample_paths"
  by (simp add: possiblePaths_def sidecar_env_def sample_simps)

lemma sidecar_env_numbers:
  "task_numbers (sidecar_env metadata) (tasks_dir ''Code'') = [Finite 3]"
  "task_numbers (sidecar_env metadata) (tasks_dir ''Cursor'') = [Finite 12]"
  "task_numbers (sidecar_env metadata) (tasks_dir ''Windsurf'') = []"
  by (simp_all add: sidecar_env_def sample_simps parseInt_small)

lemma less_small: "Finite (- 1) < Finite 3" "Finite 3 < Finite 12" "Finite (- 1) < Finite 12"
  "\<not> Finite 12 < Finite 12" "\<not> Finite 12 < Finite 3"
  by (simp_all add: less_number_def less_eq_number_def)

lemma max_small: "max (Finite 3) (Finite 12) = Finite 12" "max (Finite 12) (Finite 3) = Finite 12"
  by (simp_all add: max_def less_eq_number_def)

lemma sidecar_env_scan:
  "scan (sidecar_env metadata) sample_paths (Finite (- 1), None)
     = (Finite 12, Some (tasks_dir ''Cursor''))"
  by (simp add: scan_step sidecar_env_numbers sample_paths_def less_small del: scan.simps(2))

lemma sidecar_env_file:
  "read_json (sidecar_env metadata)
     (metadataFilePath (sidecar_env metadata) (tasks_dir ''Cursor'') (Finite 12)) = Parsed metadata"
  by (simp add: metadataFilePath_def sidecar_env_def sample_env_def tasks_dir_def
      sample_number_text_12)

lemma tie_env_paths: "possiblePaths tie_env = Inr sample_paths"
  by (simp add: possiblePaths_def tie_env_def sample_simps)

lemma tie_env_numbers:
  "task_numbers tie_env (tasks_dir ''Code'') = [Finite 3, Finite 12]"
  "task_numbers tie_env (tasks_dir ''Cursor'') = [Finite 12]"
  "task_numbers tie_env (tasks_dir ''Windsurf'') = []"
  by (simp_all add: tie_env_def sample_simps parseInt_small)

lemma tie_env_scan:
  "scan tie_env sample_paths (Finite (- 1), None) = (Finite 12, Some (tasks_dir ''Code''))"
  by (simp add: scan_step tie_env_numbers sample_paths_def less_small max_small
      del: scan.simps(2))

lemma rounding_env_paths: "possiblePaths rounding_env = Inr sample_paths"
  by (simp add: possiblePaths_def rounding_env_def sample_simps)

lemma rounding_env_names:
  "task_names rounding_env (tasks_dir ''Code'') = [''9007199254740992'']"
  "task_names rounding_env (tasks_dir ''Cursor'') = [''9007199254740993'']"
  "task_names rounding_env (tasks_dir ''Windsurf'') = [''9007199254740993'']"
  by (simp_all add: rounding_env_def sample_simps)

lemma rounding_env_numbers:
  "task_numbers rounding_env (tasks_dir ''Code'') = [Finite 9007199254740992]"
  "task_numbers rounding_env (tasks_dir ''Cursor'') = [Finite 9007199254740992]"
  "task_numbers rounding_env (tasks_dir ''Windsurf'') = [Finite 9007199254740992]"
  by (simp_all add: rounding_env_def sample_simps parseInt_big)

lemma rounding_env_scan:
  "scan rounding_env sample_paths (Finite (- 1), None)
     = (Finite 9007199254740992, Some (tasks_dir ''Code''))"
  by (simp add: scan_step rounding_env_numbers sample_paths_def less_number_def
      less_eq_number_def del: scan.simps(2))

lemma ide_of_sample_paths:
  "ide_of_path (tasks_dir ''Code'') [''Code'', ''Cursor'', ''Windsurf''] = ''Code''"
  "ide_of_path (tasks_dir ''Cursor'') [''Code'', ''Cursor'', ''Windsurf''] = ''Cursor''"
  by code_simp+

section \<open>The record selected by the locator\<close>

lemma scan_skips:
  "scan e (filter (\<lambda>p. task_numbers e p \<noteq> []) paths) state = scan e paths state"
proof (induction paths arbitrary: state)
  case Nil
  show ?case by simp
next
  case (Cons p rest)
  obtain h f where state: "state = (h, f)" by (cases state)
  show ?case
  proof (cases "task_numbers e p = []")
    case True
    then show ?thesis
      by (simp add: state scan_step Cons.IH del: scan.simps)
  next
    case False
    then show ?thesis
      by (simp add: state scan_step Cons.IH del: scan.simps)
  qed
qed

lemma getApiMetadata_selected:
  "possiblePaths e = Inr paths \<Longrightarrow> scan e paths (Finite (- 1), None) = (n, Some q) \<Longrightarrow>
     getApiMetadata e = read_metadata e q n"
  by (simp add: getApiMetadata_def)

lemma holds_maximum_mem: "holds_maximum e m p \<Longrightarrow> m \<in> set (task_numbers e p)"
  by (auto simp: holds_maximum_def)

lemma task_numbers_names: "task_numbers e p = map parseInt (task_names e p)"
  by (simp add: task_numbers_def task_names_def numericDirs_def comp_def split: dir_result.splits)

lemma all_task_numbers_values:
  "all_task_numbers e paths = parseInt ` (\<Union>p \<in> set paths. set (task_names e p))"
  by (auto simp: all_task_numbers_def task_numbers_names)

lemma exact_monotone: "mono (\<lambda>v::nat. Finite (of_nat v))"
  by (rule monoI) (simp add: less_eq_number_def)

lemma exact_maximum:
  assumes "\<forall>v \<in> all_task_values e paths. v < 2 ^ 53"
    and "all_task_numbers e paths \<noteq> {}"
  shows "Max (all_task_numbers e paths) = Finite (of_nat (Max (all_task_values e paths)))"
proof -
  let ?names = "\<Union>p \<in> set paths. set (task_names e p)"
  have exact: "parseInt s = Finite (of_nat (decimal_value s))" if "s \<in> ?names" for s
  proof -
    from that have "decimal_value s \<in> all_task_values e paths"
      by (auto simp: all_task_values_def)
    with assms(1) have "decimal_value s < 2 ^ 53" by blast
    then show ?thesis by (simp add: parseInt_def round_to_double_def)
  qed
  have vals: "all_task_values e paths = decimal_value ` ?names"
    by (auto simp: all_task_values_def)
  have "all_task_numbers e paths = (\<lambda>v. Finite (of_nat v)) ` all_task_values e paths"
    unfolding all_task_numbers_values vals image_image
    by (rule image_cong) (simp_all add: exact)
  moreover have "finite (all_task_values e paths)" by (simp add: all_task_values_def)
  moreover have "all_task_values e paths \<noteq> {}"
    using assms(2) by (auto simp: all_task_numbers_values vals)
  ultimately show ?thesis
    using mono_Max_commute [OF exact_monotone, of "all_task_values e paths"] by simp
qed

text \<open>
  C3, as amended. The program reads the name of a numeric subdirectory with
  \<^verbatim>\<open>parseInt\<close>, as a double: the value is exact below \<open>2 ^ 53\<close> and rounded
  from there on. Whenever at least one of the candidate directories holds a
  purely numeric subdirectory, the scan ends with the greatest of the numbers
  so read, over the numeric subdirectories of all the candidates, not only of
  one, together with a candidate directory that holds it, and the locator reads
  the sidecar of that pair. When every name denotes a number below \<open>2 ^ 53\<close>,
  that number is the greatest numeric identifier itself. Candidates that are
  missing, unreadable or without a numeric subdirectory are passed over:
  leaving them out of the list gives the same result, and none of them makes
  the scan fail.
\<close>

theorem locator_selects_highest_record:
  assumes "\<exists>p \<in> set paths. task_numbers e p \<noteq> []"
  shows "\<exists>q \<in> set paths.
           scan e paths (Finite (- 1), None) = (Max (all_task_numbers e paths), Some q)
         \<and> Max (all_task_numbers e paths) \<in> set (task_numbers e q)
         \<and> scan e (filter (\<lambda>p. task_numbers e p \<noteq> []) paths) (Finite (- 1), None)
             = scan e paths (Finite (- 1), None)
         \<and> (possiblePaths e = Inr paths \<longrightarrow>
              getApiMetadata e = read_metadata e q (Max (all_task_numbers e paths)))
         \<and> ((\<forall>v \<in> all_task_values e paths. v < 2 ^ 53) \<longrightarrow>
              Max (all_task_numbers e paths) = Finite (of_nat (Max (all_task_values e paths))))"
proof -
  let ?M = "Max (all_task_numbers e paths)"
  from scan_found [OF assms] obtain q
    where q: "scan e paths (Finite (- 1), None) = (?M, Some q)"
      "find (holds_maximum e ?M) paths = Some q"
    by blast
  from q(2) have "q \<in> set paths" "holds_maximum e ?M q"
    by (auto simp: find_Some_iff)
  then have mem: "q \<in> set paths" "?M \<in> set (task_numbers e q)"
    by (simp_all add: holds_maximum_mem)
  have "all_task_numbers e paths \<noteq> {}"
    using assms by (auto simp: all_task_numbers_def)
  then have exact: "(\<forall>v \<in> all_task_values e paths. v < 2 ^ 53) \<longrightarrow>
      ?M = Finite (of_nat (Max (all_task_values e paths)))"
    using exact_maximum [of e paths] by blast
  from q(1) mem exact show ?thesis
    using scan_skips [of e paths "(Finite (- 1), None)"] getApiMetadata_selected [of e paths ?M q]
    by blast
qed

text \<open>
  With the names 9007199254740992 under Code and 9007199254740993 under
  Cursor, the greatest numeric identifier is under Cursor; both names are read
  as the same double, and the scan keeps Code.
\<close>

theorem highest_name_not_selected:
  "task_names rounding_env (tasks_dir ''Code'') = [''9007199254740992'']
   \<and> task_names rounding_env (tasks_dir ''Cursor'') = [''9007199254740993'']
   \<and> Max (all_task_values rounding_env sample_paths) = 9007199254740993
   \<and> scan rounding_env sample_paths (Finite (- 1), None)
       = (Finite 9007199254740992, Some (tasks_dir ''Code''))"
  by (simp add: rounding_env_names rounding_env_scan)
     (simp add: all_task_values_def sample_paths_def rounding_env_names decimal_value_big)

lemma sidecar_env_names:
  "task_names (sidecar_env metadata) (tasks_dir ''Code'') = [''3'']"
  "task_names (sidecar_env metadata) (tasks_dir ''Cursor'') = [''12'']"
  "task_names (sidecar_env metadata) (tasks_dir ''Windsurf'') = []"
  by (simp_all add: sidecar_env_def sample_simps)

lemma sidecar_env_values:
  "all_task_values (sidecar_env metadata) sample_paths = {3, 12}"
  by (simp add: all_task_values_def sample_paths_def sidecar_env_names decimal_value_def
      digit_value_def insert_commute)

theorem locator_selects_highest_record_witness:
  "(\<exists>p \<in> set sample_paths. task_numbers cursor_env p \<noteq> [])
   \<and> possiblePaths cursor_env = Inr sample_paths
   \<and> all_task_values cursor_env sample_paths = {3, 12}
   \<and> Max (all_task_numbers cursor_env sample_paths) = Finite 12
   \<and> getApiMetadata cursor_env = read_metadata cursor_env (tasks_dir ''Cursor'') (Finite 12)"
proof -
  have some: "\<exists>p \<in> set sample_paths. task_numbers cursor_env p \<noteq> []"
    by (simp add: sample_paths_def cursor_env_def sidecar_env_numbers)
  have vals: "all_task_values cursor_env sample_paths = {3, 12}"
    by (simp add: cursor_env_def sidecar_env_values)
  from locator_selects_highest_record [OF some] obtain q
    where q: "scan cursor_env sample_paths (Finite (- 1), None)
                = (Max (all_task_numbers cursor_env sample_paths), Some q)"
      and md: "possiblePaths cursor_env = Inr sample_paths \<longrightarrow>
                getApiMetadata cursor_env
                  = read_metadata cursor_env q (Max (all_task_numbers cursor_env sample_paths))"
      and exact: "(\<forall>v \<in> all_task_values cursor_env sample_paths. v < 2 ^ 53) \<longrightarrow>
                Max (all_task_numbers cursor_env sample_paths)
                  = Finite (of_nat (Max (all_task_values cursor_env sample_paths)))"
    by blast
  from exact have m: "Max (all_task_numbers cursor_env sample_paths) = Finite 12"
    by (simp add: vals)
  from q m have "q = tasks_dir ''Cursor''"
    by (simp add: cursor_env_def sidecar_env_scan)
  with some md m vals show ?thesis by (simp add: cursor_env_def sidecar_env_paths)
qed

lemma possiblePaths_candidates:
  "possiblePaths e = Inr paths \<Longrightarrow>
     paths = [candidate e ''Code'', candidate e ''Cursor'', candidate e ''Windsurf'']"
  by (auto simp: possiblePaths_def candidate_def storage_root_def ideApps_def
        split: if_splits option.splits)

lemma read_metadata_ide:
  "read_metadata e base n = Inr md \<Longrightarrow> ideUsed md = ide_of_path base [''Code'', ''Cursor'', ''Windsurf'']"
  by (auto simp: read_metadata_def split: file_result.splits sum.splits prod.splits)

lemma find_of_three:
  "find P [a, b, c] = Some q \<Longrightarrow> q = (if P a then a else if P b then b else c)"
  by (auto split: if_splits)

text \<open>
  C10, as amended. The candidate directories are listed in the order Code,
  Cursor, Windsurf. When several of them hold the overall highest record
  number, as the program reads it (a double, exact below \<open>2 ^ 53\<close>), the
  locator selects the earliest of them in that order, since the loop replaces
  its running maximum on a strictly greater number only. The sidecar is then
  read under that directory, and the IDE label of a result is derived from
  that directory's path.
\<close>

theorem locator_tie_selects_earliest:
  assumes "possiblePaths e = Inr paths"
    and "\<exists>p \<in> set paths. task_numbers e p \<noteq> []"
  shows "\<exists>q. paths = [candidate e ''Code'', candidate e ''Cursor'', candidate e ''Windsurf'']
         \<and> q = (if holds_maximum e (Max (all_task_numbers e paths)) (candidate e ''Code'')
                then candidate e ''Code''
                else if holds_maximum e (Max (all_task_numbers e paths)) (candidate e ''Cursor'')
                then candidate e ''Cursor''
                else candidate e ''Windsurf'')
         \<and> holds_maximum e (Max (all_task_numbers e paths)) q
         \<and> snd (scan e paths (Finite (- 1), None)) = Some q
         \<and> getApiMetadata e = read_metadata e q (Max (all_task_numbers e paths))
         \<and> (\<forall>md. getApiMetadata e = Inr md \<longrightarrow>
               ideUsed md = ide_of_path q [''Code'', ''Cursor'', ''Windsurf''])"
proof -
  let ?M = "Max (all_task_numbers e paths)"
  have order: "paths = [candidate e ''Code'', candidate e ''Cursor'', candidate e ''Windsurf'']"
    using assms(1) by (rule possiblePaths_candidates)
  from scan_found [OF assms(2)] obtain q
    where q: "scan e paths (Finite (- 1), None) = (?M, Some q)"
      "find (holds_maximum e ?M) paths = Some q"
    by blast
  have first: "q = (if holds_maximum e ?M (candidate e ''Code'') then candidate e ''Code''
                    else if holds_maximum e ?M (candidate e ''Cursor'') then candidate e ''Cursor''
                    else candidate e ''Windsurf'')"
    using q(2) unfolding order by (rule find_of_three)
  have holds: "holds_maximum e ?M q" using q(2) by (auto simp: find_Some_iff)
  have md: "getApiMetadata e = read_metadata e q ?M"
    using assms(1) q(1) by (rule getApiMetadata_selected)
  then have "\<forall>md. getApiMetadata e = Inr md \<longrightarrow>
               ideUsed md = ide_of_path q [''Code'', ''Cursor'', ''Windsurf'']"
    by (simp add: read_metadata_ide)
  with order first holds q(1) md show ?thesis by simp
qed

lemma sample_usage_selected:
  "select_usage other (JObj [(''model_usage'', sample_usage)]) = Inr (JStr ''P'', JStr ''M'')"
  by (simp add: select_usage_def read_property_def sample_usage_def js_gt_def is_number_def
      number_of_def less_number_def less_eq_number_def)

lemma tie_env_sidecar:
  "read_json tie_env (metadataFilePath tie_env (tasks_dir ''Code'') (Finite 12))
     = Parsed (JObj [(''model_usage'', sample_usage)])"
  by (simp add: metadataFilePath_def tie_env_def sample_env_def tasks_dir_def
      sample_number_text_12)

lemma tie_env_metadata:
  "read_metadata tie_env (tasks_dir ''Code'') (Finite 12)
     = Inr \<lparr>apiProvider = JStr ''P'', modelName = JStr ''M'', ideUsed = ''Code''\<rparr>"
  by (simp add: read_metadata_def tie_env_sidecar sample_usage_selected ide_of_sample_paths
      del: ide_of_path.simps)

lemma show_nat_big: "show_nat 9007199254740992 = ''9007199254740992''"
  by (simp add: show_nat.simps digit_char_def)

lemma rounding_env_sidecar:
  "read_json rounding_env
     (metadataFilePath rounding_env (tasks_dir ''Code'') (Finite 9007199254740992))
     = Parsed (JObj [(''model_usage'', sample_usage)])"
  by (simp add: metadataFilePath_def rounding_env_def sample_env_def tasks_dir_def
      sample_number_text_def show_nat_big)

lemma rounding_env_metadata:
  "getApiMetadata rounding_env
     = Inr \<lparr>apiProvider = JStr ''P'', modelName = JStr ''M'', ideUsed = ''Code''\<rparr>"
  by (simp add: getApiMetadata_selected [OF rounding_env_paths rounding_env_scan]
      read_metadata_def rounding_env_sidecar sample_usage_selected ide_of_sample_paths
      del: ide_of_path.simps)

text \<open>
  Record names from \<open>2 ^ 53\<close> on can be read as equal although they differ:
  with 9007199254740992 under Code and 9007199254740993 under both Cursor and
  Windsurf, the directories that share the highest record name are Cursor and
  Windsurf, and the locator selects Code.
\<close>

theorem rounded_tie_keeps_first:
  "possiblePaths rounding_env = Inr sample_paths
   \<and> task_names rounding_env (tasks_dir ''Code'') = [''9007199254740992'']
   \<and> task_names rounding_env (tasks_dir ''Cursor'') = [''9007199254740993'']
   \<and> task_names rounding_env (tasks_dir ''Windsurf'') = [''9007199254740993'']
   \<and> snd (scan rounding_env sample_paths (Finite (- 1), None)) = Some (tasks_dir ''Code'')
   \<and> getApiMetadata rounding_env
       = Inr \<lparr>apiProvider = JStr ''P'', modelName = JStr ''M'', ideUsed = ''Code''\<rparr>"
  by (simp add: rounding_env_paths rounding_env_names rounding_env_scan rounding_env_metadata)

lemma tie_env_candidates:
  "candidate tie_env ''Code'' = tasks_dir ''Code''"
  "candidate tie_env ''Cursor'' = tasks_dir ''Cursor''"
  "candidate tie_env ''Windsurf'' = tasks_dir ''Windsurf''"
  by (simp_all add: candidate_def storage_root_def tie_env_def sample_env_def tasks_dir_def)

theorem locator_tie_selects_earliest_witness:
  "possiblePaths tie_env = Inr sample_paths
   \<and> (\<exists>p \<in> set sample_paths. task_numbers tie_env p \<noteq> [])
   \<and> Max (set (task_numbers tie_env (tasks_dir ''Code''))) = Finite 12
   \<and> Max (set (task_numbers tie_env (tasks_dir ''Cursor''))) = Finite 12
   \<and> holds_maximum tie_env (Max (all_task_numbers tie_env sample_paths)) (tasks_dir ''Code'')
   \<and> getApiMetadata tie_env
       = Inr \<lparr>apiProvider = JStr ''P'', modelName = JStr ''M'', ideUsed = ''Code''\<rparr>"
proof -
  have some: "\<exists>p \<in> set sample_paths. task_numbers tie_env p \<noteq> []"
    by (simp add: sample_paths_def tie_env_numbers)
  from locator_tie_selects_earliest [OF tie_env_paths some] obtain q
    where h: "holds_maximum tie_env (Max (all_task_numbers tie_env sample_paths)) q"
      and s: "snd (scan tie_env sample_paths (Finite (- 1), None)) = Some q"
      and m: "getApiMetadata tie_env
                = read_metadata tie_env q (Max (all_task_numbers tie_env sample_paths))"
    by blast
  from s have qc: "q = tasks_dir ''Code''" by (simp add: tie_env_scan)
  have "Max (all_task_numbers tie_env sample_paths) = Finite 12"
    using scan_fst [of tie_env sample_paths "Finite (- 1)" None] scan_found [OF some]
    by (auto simp: tie_env_scan)
  with m qc have "getApiMetadata tie_env
       = Inr \<lparr>apiProvider = JStr ''P'', modelName = JStr ''M'', ideUsed = ''Code''\<rparr>"
    by (simp add: tie_env_metadata)
  with h qc some show ?thesis
    by (simp add: tie_env_paths tie_env_numbers max_small)
qed

section \<open>The usage entry returned by the locator\<close>

lemma select_usage_well_formed:
  assumes "read_property metadata ''model_usage'' = Inr (JArr entries)"
    and "\<forall>x \<in> set entries. timestamped x"
    and "latest_by_ts entries = Some w"
  shows "select_usage other metadata =
           (if truthy (property w ''model_provider_id'') \<and> truthy (property w ''model_id'')
            then Inr (property w ''model_provider_id'', property w ''model_id'')
            else Inl ''Invalid metadata format: latest entry missing required fields'')"
proof -
  have ne: "entries \<noteq> []" using assms(3) by auto
  have latest: "latest_entry other JNull entries = Inr w"
    using assms(2,3) by (rule latest_entry_well_formed)
  have "w \<in> set entries" using assms(3) by (rule latest_by_ts_mem)
  with assms(2) have "truthy w" by (simp add: timestamped_truthy)
  with ne latest assms(1) show ?thesis
    by (simp add: select_usage_def)
qed

text \<open>
  C4, as amended. Let the sidecar of the selected record hold a non-empty
  usage list whose entries are all objects with a numeric timestamp, and let
  every entry with the greatest timestamp carry a provider and a model
  identifier. Then the locator returns the provider and the model of an entry
  with the greatest timestamp (with equal timestamps, of one of the tied
  entries), and the IDE label of the selected directory. For the list with
  timestamps 1, 5 and 3, whose second entry has provider P and model M, it
  returns P and M.
\<close>

theorem locator_returns_latest_usage:
  assumes "possiblePaths e = Inr paths"
    and "scan e paths (Finite (- 1), None) = (n, Some base)"
    and "read_json e (metadataFilePath e base n) = Parsed metadata"
    and "read_property metadata ''model_usage'' = Inr (JArr entries)"
    and "entries \<noteq> []"
    and "\<forall>x \<in> set entries. timestamped x"
    and "\<forall>x \<in> set entries. (\<forall>y \<in> set entries. ts_of y \<le> ts_of x) \<longrightarrow>
           truthy (property x ''model_provider_id'') \<and> truthy (property x ''model_id'')"
  shows "\<exists>w \<in> set entries.
           (\<forall>y \<in> set entries. ts_of y \<le> ts_of w)
         \<and> getApiMetadata e =
             Inr \<lparr>apiProvider = property w ''model_provider_id'',
                  modelName = property w ''model_id'',
                  ideUsed = ide_of_path base [''Code'', ''Cursor'', ''Windsurf'']\<rparr>"
proof -
  from assms(5) obtain w where w: "latest_by_ts entries = Some w"
    using latest_by_ts_Some by (cases entries) auto
  have mem: "w \<in> set entries" using w by (rule latest_by_ts_mem)
  have top: "\<forall>y \<in> set entries. ts_of y \<le> ts_of w"
    using w by (auto intro: latest_by_ts_max)
  with mem assms(7) have both:
    "truthy (property w ''model_provider_id'') \<and> truthy (property w ''model_id'')"
    by blast
  have "select_usage (compare_other e) metadata
          = Inr (property w ''model_provider_id'', property w ''model_id'')"
    using select_usage_well_formed [OF assms(4) assms(6) w] both by simp
  with assms(3) have "read_metadata e base n =
      Inr \<lparr>apiProvider = property w ''model_provider_id'', modelName = property w ''model_id'',
           ideUsed = ide_of_path base [''Code'', ''Cursor'', ''Windsurf'']\<rparr>"
    by (simp add: read_metadata_def)
  with getApiMetadata_selected [OF assms(1,2)] mem top show ?thesis by auto
qed

lemma sidecar_env_located:
  "getApiMetadata (sidecar_env metadata) =
     (case select_usage (\<lambda>a b. False) metadata of
        Inl message \<Rightarrow> Inl (wrap_error message)
      | Inr (provider, model) \<Rightarrow>
          Inr \<lparr>apiProvider = provider, modelName = model, ideUsed = ''Cursor''\<rparr>)"
proof -
  have "compare_other (sidecar_env metadata) = (\<lambda>a b. False)"
    by (simp add: sidecar_env_def sample_env_def)
  then show ?thesis
    by (simp add: getApiMetadata_selected [OF sidecar_env_paths sidecar_env_scan]
        read_metadata_def sidecar_env_file ide_of_sample_paths del: ide_of_path.simps
        split: sum.splits prod.splits)
qed

lemma cursor_env_metadata:
  "getApiMetadata cursor_env
     = Inr \<lparr>apiProvider = JStr ''P'', modelName = JStr ''M'', ideUsed = ''Cursor''\<rparr>"
  by (simp add: cursor_env_def sidecar_env_located sample_usage_selected)

lemma sidecar_env_sidecar: "sidecar (sidecar_env metadata) = Some (Parsed metadata)"
proof -
  let ?e = "sidecar_env metadata"
  have "\<exists>p \<in> set sample_paths. task_numbers ?e p \<noteq> []"
    by (simp add: sample_paths_def sidecar_env_numbers)
  from scan_found [OF this] obtain q
    where q: "scan ?e sample_paths (Finite (- 1), None)
                = (Max (all_task_numbers ?e sample_paths), Some q)"
      "find (holds_maximum ?e (Max (all_task_numbers ?e sample_paths))) sample_paths = Some q"
    by blast
  from q(1) have "Max (all_task_numbers ?e sample_paths) = Finite 12" "q = tasks_dir ''Cursor''"
    by (simp_all add: sidecar_env_scan)
  with q(2) show ?thesis
    by (simp add: sidecar_def sidecar_env_paths sidecar_env_file)
qed

lemma untimed_usage_selected:
  "select_usage other (JObj [(''model_usage'', untimed_usage)]) = Inr (JStr ''p0'', JStr ''m0'')"
  by (simp add: select_usage_def read_property_def untimed_usage_def js_gt_def is_number_def)

text \<open>
  An entry without a timestamp never compares: the first entry of the list
  stays the latest one as long as no later entry compares greater, so that the
  entry with timestamp 5, provider P and model M is passed over for the
  earlier entry that has no timestamp.
\<close>

theorem untimed_entry_is_returned:
  "sidecar untimed_env = Some (Parsed (JObj [(''model_usage'', untimed_usage)]))
   \<and> usage_entries (JObj [(''model_usage'', untimed_usage)]) =
       [JObj [(''model_provider_id'', JStr ''p0''), (''model_id'', JStr ''m0'')],
        JObj [(''ts'', JNum (Finite 5)), (''model_provider_id'', JStr ''P''),
              (''model_id'', JStr ''M'')]]
   \<and> getApiMetadata untimed_env
       = Inr \<lparr>apiProvider = JStr ''p0'', modelName = JStr ''m0'', ideUsed = ''Cursor''\<rparr>"
  by (simp add: untimed_env_def sidecar_env_sidecar sidecar_env_located untimed_usage_selected)
     (simp add: usage_entries_def untimed_usage_def)

lemma sample_usage_read:
  "read_property (JObj [(''model_usage'', sample_usage)]) ''model_usage''
     = Inr (JArr (elements sample_usage))"
  by (simp add: read_property_def sample_usage_def)

lemma sample_usage_timestamped: "\<forall>x \<in> set (elements sample_usage). timestamped x"
  by (simp add: sample_usage_def timestamped_def is_number_def)

theorem locator_returns_latest_usage_witness:
  "elements sample_usage =
     [JObj [(''ts'', JNum (Finite 1)), (''model_provider_id'', JStr ''p0''),
            (''model_id'', JStr ''m0'')],
      JObj [(''ts'', JNum (Finite 5)), (''model_provider_id'', JStr ''P''),
            (''model_id'', JStr ''M'')],
      JObj [(''ts'', JNum (Finite 3)), (''model_provider_id'', JStr ''p1''),
            (''model_id'', JStr ''m1'')]]
   \<and> sidecar cursor_env = Some (Parsed (JObj [(''model_usage'', sample_usage)]))
   \<and> getApiMetadata cursor_env
       = Inr \<lparr>apiProvider = JStr ''P'', modelName = JStr ''M'', ideUsed = ''Cursor''\<rparr>"
proof -
  have both: "\<forall>x \<in> set (elements sample_usage).
      (\<forall>y \<in> set (elements sample_usage). ts_of y \<le> ts_of x) \<longrightarrow>
        truthy (property x ''model_provider_id'') \<and> truthy (property x ''model_id'')"
    by (simp add: sample_usage_def)
  have ne: "elements sample_usage \<noteq> []" by (simp add: sample_usage_def)
  have paths: "possiblePaths cursor_env = Inr sample_paths"
    and scanned: "scan cursor_env sample_paths (Finite (- 1), None)
                    = (Finite 12, Some (tasks_dir ''Cursor''))"
    and parsed: "read_json cursor_env (metadataFilePath cursor_env (tasks_dir ''Cursor'') (Finite 12))
                 = Parsed (JObj [(''model_usage'', sample_usage)])"
    by (simp_all add: cursor_env_def sidecar_env_paths sidecar_env_scan sidecar_env_file)
  from locator_returns_latest_usage [OF paths scanned parsed sample_usage_read ne
      sample_usage_timestamped both]
  obtain w where w: "w \<in> set (elements sample_usage)"
      "\<forall>y \<in> set (elements sample_usage). ts_of y \<le> ts_of w"
      "getApiMetadata cursor_env =
         Inr \<lparr>apiProvider = property w ''model_provider_id'', modelName = property w ''model_id'',
              ideUsed = ide_of_path (tasks_dir ''Cursor'') [''Code'', ''Cursor'', ''Windsurf'']\<rparr>"
    by blast
  from w(1,2) have "w = JObj [(''ts'', JNum (Finite 5)), (''model_provider_id'', JStr ''P''),
                              (''model_id'', JStr ''M'')]"
    by (auto simp: sample_usage_def ts_of_def number_of_def less_eq_number_def)
  with w(3) have "getApiMetadata cursor_env
       = Inr \<lparr>apiProvider = JStr ''P'', modelName = JStr ''M'', ideUsed = ''Cursor''\<rparr>"
    by (simp add: ide_of_sample_paths del: ide_of_path.simps)
  then show ?thesis
    by (simp add: cursor_env_def sidecar_env_sidecar) (simp add: sample_usage_def)
qed

section \<open>Outcomes of the request handler\<close>

lemma handler_valid:
  assumes "tool_name request = ''report_cline_issue'' \<or> tool_name request = ''preview_cline_issue''"
    and "isValidReportArgs (arguments request)"
  shows "handler e request =
     (case getApiMetadata e of
        Inl errorMessage \<Rightarrow>
          (Returned \<lparr>content = Text (''Error retrieving API metadata: '' @ errorMessage
                       @ ''. Please try again or provide apiProvider and modelName manually.''),
                     isError = True\<rparr>, [])
      | Inr apiMetadata \<Rightarrow>
          (case request_body e apiMetadata (arguments request) of
             Inl message \<Rightarrow>
               (caught \<lparr>error_stderr = [], error_stdout = [], error_message = message\<rparr>,
                snd (clineVersion e))
           | Inr body \<Rightarrow>
               if tool_name request = ''preview_cline_issue'' then
                 (Returned \<lparr>content = Json
                      \<lparr>preview_title = string_of (property (arguments request) ''title''),
                       preview_body = body,
                       preview_labels = (if truthy (property (arguments request) ''labels'')
                                         then property (arguments request) ''labels'' else JArr []),
                       preview_repository = ''cline/cline''\<rparr>, isError = False\<rparr>,
                  snd (clineVersion e))
               else
                 (report_outcome (execAsync e
                    (ghCommand ''cline/cline'' (string_of (property (arguments request) ''title''))
                       body (property (arguments request) ''labels''))),
                  snd (clineVersion e)
                  @ [ghCommand ''cline/cline'' (string_of (property (arguments request) ''title''))
                       body (property (arguments request) ''labels'')])))"
  using assms by (auto simp: handler_def request_body_def Let_def split: sum.splits)

text \<open>
  C6. For every request to one of the two tools with valid arguments, if the
  metadata locator fails, whatever the reason, the handler returns a response
  with the error flag set whose text embeds the locator's message, and it runs
  no command at all; the issue-tracker CLI is not called.
\<close>

theorem locator_failure_short_circuits:
  assumes "tool_name request = ''report_cline_issue'' \<or> tool_name request = ''preview_cline_issue''"
    and "isValidReportArgs (arguments request)"
    and "getApiMetadata e = Inl message"
  shows "handler e request =
     (Returned \<lparr>content = Text (''Error retrieving API metadata: '' @ message
                  @ ''. Please try again or provide apiProvider and modelName manually.''),
                isError = True\<rparr>, [])"
  using assms(3) by (simp add: handler_valid [OF assms(1,2)])

lemma empty_env_fails: "getApiMetadata empty_env = Inl ''Could not find any valid task directories''"
  by (simp add: getApiMetadata_def possiblePaths_def empty_env_def sample_env_def ideApps_def)

lemma sample_args_valid: "isValidReportArgs sample_args"
  by (simp add: isValidReportArgs_def sample_args_def)

theorem locator_failure_short_circuits_witness:
  "getApiMetadata empty_env = Inl ''Could not find any valid task directories''
   \<and> handler empty_env \<lparr>tool_name = ''report_cline_issue'', arguments = sample_args\<rparr> =
     (Returned \<lparr>content = Text ''Error retrieving API metadata: Could not find any valid task directories. Please try again or provide apiProvider and modelName manually.'',
                isError = True\<rparr>, [])
   \<and> handler empty_env \<lparr>tool_name = ''preview_cline_issue'', arguments = sample_args\<rparr> =
     (Returned \<lparr>content = Text ''Error retrieving API metadata: Could not find any valid task directories. Please try again or provide apiProvider and modelName manually.'',
                isError = True\<rparr>, [])"
  using locator_failure_short_circuits [of "\<lparr>tool_name = ''report_cline_issue'', arguments = sample_args\<rparr>" empty_env,
      OF _ _ empty_env_fails]
    locator_failure_short_circuits [of "\<lparr>tool_name = ''preview_cline_issue'', arguments = sample_args\<rparr>" empty_env,
      OF _ _ empty_env_fails]
  by (simp add: sample_args_valid empty_env_fails)

text \<open>
  C5. For every valid report request for which the locator succeeds and the
  \<^verbatim>\<open>gh\<close> process, run with the command of the request, completes:
  non-empty standard output is returned unchanged and without the error flag,
  whatever the error stream holds; empty standard output with a non-empty
  error stream gives a response with the error flag and the error stream's
  text; both empty give the fixed success message.
\<close>

theorem report_stdout_stderr:
  assumes "tool_name request = ''report_cline_issue''"
    and "isValidReportArgs (arguments request)"
    and "getApiMetadata e = Inr apiMetadata"
    and "report_command e apiMetadata (arguments request) = Inr command"
    and "execAsync e command = Completed out err"
  shows "fst (handler e request) =
     (if out \<noteq> [] then Returned \<lparr>content = Text out, isError = False\<rparr>
      else if err \<noteq> [] then Returned \<lparr>content = Text (''GitHub CLI Error: '' @ err), isError = True\<rparr>
      else Returned \<lparr>content = Text ''Issue reported successfully (no stdout from gh).'',
                     isError = False\<rparr>)"
proof -
  have tool: "tool_name request = ''report_cline_issue'' \<or> tool_name request = ''preview_cline_issue''"
    using assms(1) by simp
  from assms(4) obtain body
    where body: "request_body e apiMetadata (arguments request) = Inr body"
      and command: "command = ghCommand ''cline/cline''
                      (string_of (property (arguments request) ''title'')) body
                      (property (arguments request) ''labels'')"
    by (auto simp: report_command_def split: sum.splits)
  from handler_valid [OF tool assms(2), of e] assms(1,3,5) body command
  show ?thesis by (simp add: report_outcome_def)
qed

lemma scan_execAsync: "scan (e\<lparr>execAsync := f\<rparr>) paths state = scan e paths state"
  by (induction e paths state rule: scan.induct)
     (simp_all split: dir_result.splits list.splits add: Let_def)

lemma read_metadata_execAsync:
  "read_metadata (e\<lparr>execAsync := f\<rparr>) base n = read_metadata e base n"
  by (simp add: read_metadata_def metadataFilePath_def split: file_result.splits)

lemma getApiMetadata_execAsync: "getApiMetadata (e\<lparr>execAsync := f\<rparr>) = getApiMetadata e"
  by (simp add: getApiMetadata_def possiblePaths_def scan_execAsync read_metadata_execAsync
      split: sum.splits prod.splits option.splits)

lemma gh_env_metadata:
  "getApiMetadata (gh_env r)
     = Inr \<lparr>apiProvider = JStr ''P'', modelName = JStr ''M'', ideUsed = ''Cursor''\<rparr>"
  by (simp add: gh_env_def getApiMetadata_execAsync cursor_env_metadata)

lemma string_identifiers_body:
  "apiProvider apiMetadata = JStr provider \<Longrightarrow> modelName apiMetadata = JStr model \<Longrightarrow>
     \<exists>body. request_body e apiMetadata args = Inr body"
  by (simp add: request_body_def formattedBody_def)

lemma gh_env_command:
  "\<exists>command. report_command (gh_env r)
       \<lparr>apiProvider = JStr ''P'', modelName = JStr ''M'', ideUsed = ''Cursor''\<rparr> args = Inr command
     \<and> execAsync (gh_env r) command = r"
  by (simp add: report_command_def request_body_def formattedBody_def gh_env_def ghCommand_def
      starts_with_def)

theorem report_stdout_stderr_witness:
  "fst (handler (gh_env (Completed ''https://github.com/cline/cline/issues/1'' ''warning''))
         \<lparr>tool_name = ''report_cline_issue'', arguments = sample_args\<rparr>)
     = Returned \<lparr>content = Text ''https://github.com/cline/cline/issues/1'', isError = False\<rparr>
   \<and> fst (handler (gh_env (Completed [] ''could not create issue''))
         \<lparr>tool_name = ''report_cline_issue'', arguments = sample_args\<rparr>)
     = Returned \<lparr>content = Text ''GitHub CLI Error: could not create issue'', isError = True\<rparr>
   \<and> fst (handler (gh_env (Completed [] []))
         \<lparr>tool_name = ''report_cline_issue'', arguments = sample_args\<rparr>)
     = Returned \<lparr>content = Text ''Issue reported successfully (no stdout from gh).'',
                  isError = False\<rparr>"
proof -
  let ?r = "\<lparr>tool_name = ''report_cline_issue'', arguments = sample_args\<rparr>"
  have run: "fst (handler (gh_env (Completed out err)) ?r) =
     (if out \<noteq> [] then Returned \<lparr>content = Text out, isError = False\<rparr>
      else if err \<noteq> [] then Returned \<lparr>content = Text (''GitHub CLI Error: '' @ err), isError = True\<rparr>
      else Returned \<lparr>content = Text ''Issue reported successfully (no stdout from gh).'',
                     isError = False\<rparr>)" for out err
  proof -
    from gh_env_command [of "Completed out err" sample_args] obtain command
      where c: "report_command (gh_env (Completed out err))
                  \<lparr>apiProvider = JStr ''P'', modelName = JStr ''M'', ideUsed = ''Cursor''\<rparr>
                  sample_args = Inr command"
        "execAsync (gh_env (Completed out err)) command = Completed out err"
      by blast
    show ?thesis
      using report_stdout_stderr [of ?r "gh_env (Completed out err)", OF _ _ gh_env_metadata _ c(2)] c(1)
      by (simp add: sample_args_valid)
  qed
  show ?thesis
    using run [of "''https://github.com/cline/cline/issues/1''" "''warning''"]
      run [of "[]" "''could not create issue''"] run [of "[]" "[]"]
    by simp
qed

section \<open>Version detection\<close>

lemma match_version_nonempty: "match_version s = Some v \<Longrightarrow> v \<noteq> []"
  by (induction s) (auto split: if_splits)

lemma detect_version_step:
  "detect_version e search (ide # rest) =
     (case probe_version e search ide of
        None \<Rightarrow> after_command (list_command search ide) (detect_version e search rest)
      | Some v \<Rightarrow> (v, [list_command search ide]))"
  by (auto simp: probe_version_def match_version_nonempty
        split: exec_result.splits option.splits)

lemma detect_version_none:
  "\<forall>ide \<in> set names. probe_version e search ide = None \<Longrightarrow>
     detect_version e search names = (''unknown'', map (list_command search) names)"
  by (induction names) (simp_all add: detect_version_step after_command_def del: detect_version.simps(2))

lemma detect_version_first:
  "\<forall>ide \<in> set pre. probe_version e search ide = None \<Longrightarrow>
   probe_version e search ide = Some v \<Longrightarrow>
     detect_version e search (pre @ ide # post) = (v, map (list_command search) (pre @ [ide]))"
  by (induction pre) (simp_all add: detect_version_step after_command_def del: detect_version.simps(2))

lemma detect_version_commands:
  "\<exists>k. snd (detect_version e search names) = map (list_command search) (take k names)
       \<and> k \<le> length names \<and> (names \<noteq> [] \<longrightarrow> 1 \<le> k)"
proof (induction names)
  case Nil
  show ?case by simp
next
  case (Cons ide rest)
  show ?case
  proof (cases "probe_version e search ide")
    case None
    from Cons.IH obtain k
      where k: "snd (detect_version e search rest) = map (list_command search) (take k rest)"
        "k \<le> length rest" by blast
    then have "snd (detect_version e search (ide # rest))
                 = map (list_command search) (take (Suc k) (ide # rest))
               \<and> Suc k \<le> length (ide # rest) \<and> 1 \<le> Suc k"
      using None by (simp add: detect_version_step after_command_def del: detect_version.simps(2))
    then show ?thesis by blast
  next
    case (Some v)
    then have "snd (detect_version e search (ide # rest))
                 = map (list_command search) (take 1 (ide # rest))
               \<and> (1::nat) \<le> length (ide # rest) \<and> (1::nat) \<le> 1"
      by (simp add: detect_version_step del: detect_version.simps(2))
    then show ?thesis by blast
  qed
qed

lemma sidecar_env_probes:
  "probe_version (sidecar_env metadata) (searchCmd (sidecar_env metadata)) ''code'' = None"
  "probe_version (sidecar_env metadata) (searchCmd (sidecar_env metadata)) ''cursor'' = Some ''3.2.1''"
  by (simp_all add: probe_version_def searchCmd_def sidecar_env_def sample_env_def list_command_def
      starts_with_def extension_at_def version_char_def is_digit_def)

lemma sidecar_env_version:
  "clineVersion (sidecar_env metadata) =
     (''3.2.1'', [''code --list-extensions --show-versions | grep saoudrizwan.claude-dev'',
                  ''cursor --list-extensions --show-versions | grep saoudrizwan.claude-dev''])"
proof -
  let ?e = "sidecar_env metadata"
  have "clineVersion ?e = (''3.2.1'', map (list_command (searchCmd ?e)) ([''code''] @ [''cursor'']))"
    unfolding clineVersion_def ides_def
    using detect_version_first [of "[''code'']" ?e "searchCmd ?e" "''cursor''"
        "''3.2.1''" "[''windsurf'']"]
    by (simp add: sidecar_env_probes)
  moreover have "searchCmd ?e = ''grep''"
    by (simp add: searchCmd_def sidecar_env_def sample_env_def)
  ultimately show ?thesis by (simp add: list_command_def)
qed

lemma tie_env_probes: "probe_version tie_env (searchCmd tie_env) ide = None"
  by (simp add: probe_version_def tie_env_def sample_env_def)

lemma tie_env_located:
  "getApiMetadata tie_env
     = Inr \<lparr>apiProvider = JStr ''P'', modelName = JStr ''M'', ideUsed = ''Code''\<rparr>"
  by (simp add: getApiMetadata_selected [OF tie_env_paths tie_env_scan] tie_env_metadata)

section \<open>The version of the extension\<close>

text \<open>
  C9. Version detection goes through the fixed list code, cursor, windsurf in
  order. If no command of the list both succeeds and prints a matching line,
  the version is \<^verbatim>\<open>unknown\<close> and all three commands were run. Otherwise
  the version is the one matched in the output of the first such command, and
  the commands run are those up to and including it. In both cases the request
  goes on: for valid arguments and a successful locator, the body is formed
  with that version, and whether this step raises does not depend on the
  version; with the body formed, the outcome of a preview is the preview
  object, without the error flag, and the outcome of a report is decided by
  the \<^verbatim>\<open>gh\<close> command alone.
\<close>

theorem version_detection_first_match:
  "((\<forall>ide \<in> set ides. probe_version e (searchCmd e) ide = None) \<longrightarrow>
      clineVersion e = (''unknown'', map (list_command (searchCmd e)) ides))
   \<and> (\<forall>pre ide post v.
        ides = pre @ ide # post
        \<and> (\<forall>i \<in> set pre. probe_version e (searchCmd e) i = None)
        \<and> probe_version e (searchCmd e) ide = Some v \<longrightarrow>
          clineVersion e = (v, map (list_command (searchCmd e)) (pre @ [ide])))
   \<and> (\<forall>request apiMetadata.
        (tool_name request = ''report_cline_issue'' \<or> tool_name request = ''preview_cline_issue'')
        \<and> isValidReportArgs (arguments request)
        \<and> getApiMetadata e = Inr apiMetadata \<longrightarrow>
          fst (handler e request) =
            (case formattedBody e apiMetadata (fst (clineVersion e))
                    (string_of (property (arguments request) ''description'')) of
               Inl message \<Rightarrow>
                 caught \<lparr>error_stderr = [], error_stdout = [], error_message = message\<rparr>
             | Inr body \<Rightarrow>
                 if tool_name request = ''preview_cline_issue'' then
                   Returned \<lparr>content = Json
                       \<lparr>preview_title = string_of (property (arguments request) ''title''),
                        preview_body = body,
                        preview_labels = (if truthy (property (arguments request) ''labels'')
                                          then property (arguments request) ''labels'' else JArr []),
                        preview_repository = ''cline/cline''\<rparr>,
                     isError = False\<rparr>
                 else report_outcome (execAsync e
                        (ghCommand ''cline/cline'' (string_of (property (arguments request) ''title''))
                           body (property (arguments request) ''labels'')))))
   \<and> (\<forall>apiMetadata description version.
        isl (formattedBody e apiMetadata version description)
          = isl (formattedBody e apiMetadata ''unknown'' description))"
proof (intro conjI allI impI)
  assume "\<forall>ide \<in> set ides. probe_version e (searchCmd e) ide = None"
  then show "clineVersion e = (''unknown'', map (list_command (searchCmd e)) ides)"
    unfolding clineVersion_def by (rule detect_version_none)
next
  fix pre ide post v
  assume a: "ides = pre @ ide # post
        \<and> (\<forall>i \<in> set pre. probe_version e (searchCmd e) i = None)
        \<and> probe_version e (searchCmd e) ide = Some v"
  then have "detect_version e (searchCmd e) (pre @ ide # post)
               = (v, map (list_command (searchCmd e)) (pre @ [ide]))"
    by (intro detect_version_first) simp_all
  with a show "clineVersion e = (v, map (list_command (searchCmd e)) (pre @ [ide]))"
    by (simp add: clineVersion_def)
next
  fix request :: request and apiMetadata :: api_metadata
  assume a: "(tool_name request = ''report_cline_issue'' \<or> tool_name request = ''preview_cline_issue'')
        \<and> isValidReportArgs (arguments request)
        \<and> getApiMetadata e = Inr apiMetadata"
  then have t: "tool_name request = ''report_cline_issue'' \<or> tool_name request = ''preview_cline_issue''"
    and v: "isValidReportArgs (arguments request)" by simp_all
  from a have md: "getApiMetadata e = Inr apiMetadata" by simp
  have h: "fst (handler e request) =
     (case request_body e apiMetadata (arguments request) of
             Inl message \<Rightarrow>
               caught \<lparr>error_stderr = [], error_stdout = [], error_message = message\<rparr>
           | Inr body \<Rightarrow>
               if tool_name request = ''preview_cline_issue'' then
                 Returned \<lparr>content = Json
                      \<lparr>preview_title = string_of (property (arguments request) ''title''),
                       preview_body = body,
                       preview_labels = (if truthy (property (arguments request) ''labels'')
                                         then property (arguments request) ''labels'' else JArr []),
                       preview_repository = ''cline/cline''\<rparr>, isError = False\<rparr>
               else
                 report_outcome (execAsync e
                    (ghCommand ''cline/cline'' (string_of (property (arguments request) ''title''))
                       body (property (arguments request) ''labels''))))"
    unfolding handler_valid [OF t v, of e] md
    by (cases "request_body e apiMetadata (arguments request)") simp_all
  show "fst (handler e request) =
            (case formattedBody e apiMetadata (fst (clineVersion e))
                    (string_of (property (arguments request) ''description'')) of
               Inl message \<Rightarrow>
                 caught \<lparr>error_stderr = [], error_stdout = [], error_message = message\<rparr>
             | Inr body \<Rightarrow>
                 if tool_name request = ''preview_cline_issue'' then
                   Returned \<lparr>content = Json
                       \<lparr>preview_title = string_of (property (arguments request) ''title''),
                        preview_body = body,
                        preview_labels = (if truthy (property (arguments request) ''labels'')
                                          then property (arguments request) ''labels'' else JArr []),
                        preview_repository = ''cline/cline''\<rparr>,
                     isError = False\<rparr>
                 else report_outcome (execAsync e
                        (ghCommand ''cline/cline'' (string_of (property (arguments request) ''title''))
                           body (property (arguments request) ''labels''))))"
    unfolding h request_body_def ..
next
  fix apiMetadata :: api_metadata and description version :: string
  show "isl (formattedBody e apiMetadata version description)
          = isl (formattedBody e apiMetadata ''unknown'' description)"
    by (simp add: formattedBody_def split: sum.splits)
qed

theorem version_detection_first_match_witness:
  "ides = [''code''] @ ''cursor'' # [''windsurf'']
   \<and> probe_version cursor_env (searchCmd cursor_env) ''code'' = None
   \<and> probe_version cursor_env (searchCmd cursor_env) ''cursor'' = Some ''3.2.1''
   \<and> clineVersion cursor_env =
       (''3.2.1'', [''code --list-extensions --show-versions | grep saoudrizwan.claude-dev'',
                    ''cursor --list-extensions --show-versions | grep saoudrizwan.claude-dev''])
   \<and> getApiMetadata tie_env
       = Inr \<lparr>apiProvider = JStr ''P'', modelName = JStr ''M'', ideUsed = ''Code''\<rparr>
   \<and> clineVersion tie_env =
       (''unknown'', [''code --list-extensions --show-versions | grep saoudrizwan.claude-dev'',
                      ''cursor --list-extensions --show-versions | grep saoudrizwan.claude-dev'',
                      ''windsurf --list-extensions --show-versions | grep saoudrizwan.claude-dev''])
   \<and> fst (handler tie_env \<lparr>tool_name = ''preview_cline_issue'', arguments = sample_args\<rparr>) =
       Returned \<lparr>content = Json
         \<lparr>preview_title = ''T'',
          preview_body =
            ''**Reported by:** User via Cline Issue Reporter MCP'' @ [newline]
            @ ''**Cline Version:** unknown'' @ [newline]
            @ ''**IDE:** Code'' @ [newline]
            @ ''**OS:** linux (6.1)'' @ [newline]
            @ ''**API Provider:** P'' @ [newline]
            @ ''**Model:** M'' @ [newline]
            @ [newline] @ ''---'' @ [newline, newline] @ ''**Description:**'' @ [newline] @ ''D'',
          preview_labels = JArr [],
          preview_repository = ''cline/cline''\<rparr>,
        isError = False\<rparr>"
proof -
  have split: "ides = [''code''] @ ''cursor'' # [''windsurf'']" by (simp add: ides_def)
  have probes: "probe_version cursor_env (searchCmd cursor_env) ''code'' = None"
    "probe_version cursor_env (searchCmd cursor_env) ''cursor'' = Some ''3.2.1''"
    by (simp_all add: cursor_env_def sidecar_env_probes)
  have first: "clineVersion cursor_env =
      (''3.2.1'', map (list_command (searchCmd cursor_env)) ([''code''] @ [''cursor'']))"
    using version_detection_first_match [of cursor_env, THEN conjunct2, THEN conjunct1,
        rule_format, of "[''code'']" "''cursor''" "[''windsurf'']" "''3.2.1''"]
    by (simp add: split probes)
  have none: "clineVersion tie_env = (''unknown'', map (list_command (searchCmd tie_env)) ides)"
    using version_detection_first_match [of tie_env, THEN conjunct1] by (simp add: tie_env_probes)
  have grep: "searchCmd cursor_env = ''grep''" "searchCmd tie_env = ''grep''"
    by (simp_all add: searchCmd_def cursor_env_def sidecar_env_def tie_env_def sample_env_def)
  have host: "platform tie_env = ''linux''" "release tie_env = ''6.1''"
    by (simp_all add: tie_env_def sample_env_def)
  let ?md = "\<lparr>apiProvider = JStr ''P'', modelName = JStr ''M'', ideUsed = ''Code''\<rparr>"
  let ?body = "''**Reported by:** User via Cline Issue Reporter MCP'' @ [newline]
            @ ''**Cline Version:** unknown'' @ [newline]
            @ ''**IDE:** Code'' @ [newline]
            @ ''**OS:** linux (6.1)'' @ [newline]
            @ ''**API Provider:** P'' @ [newline]
            @ ''**Model:** M'' @ [newline]
            @ [newline] @ ''---'' @ [newline, newline] @ ''**Description:**'' @ [newline] @ ''D''"
  have body: "formattedBody tie_env ?md (fst (clineVersion tie_env))
                (string_of (property sample_args ''description'')) = Inr ?body"
    by (simp add: none formattedBody_def description_header_def host sample_args_def)
  have "fst (handler tie_env \<lparr>tool_name = ''preview_cline_issue'', arguments = sample_args\<rparr>) =
       Returned \<lparr>content = Json
         \<lparr>preview_title = ''T'', preview_body = ?body, preview_labels = JArr [],
          preview_repository = ''cline/cline''\<rparr>, isError = False\<rparr>"
  proof -
    let ?request = "\<lparr>tool_name = ''preview_cline_issue'', arguments = sample_args\<rparr>"
    have "(tool_name ?request = ''report_cline_issue'' \<or> tool_name ?request = ''preview_cline_issue'')
        \<and> isValidReportArgs (arguments ?request)
        \<and> getApiMetadata tie_env = Inr ?md"
      using tie_env_located sample_args_valid by simp
    note outcome = version_detection_first_match [of tie_env, THEN conjunct2, THEN conjunct2,
        THEN conjunct1, rule_format, OF this]
    show ?thesis
      unfolding outcome using body by (simp add: sample_args_def)
  qed
  with first none show ?thesis
    by (simp add: split probes tie_env_located) (simp add: grep list_command_def ides_def)
qed

section \<open>The preview\<close>

lemma valid_labels_truthy:
  "isValidReportArgs args \<Longrightarrow>
     truthy (property args ''labels'') = (property args ''labels'' \<noteq> JUndefined)"
  by (cases "property args ''labels''") (auto simp: isValidReportArgs_def)

text \<open>
  C1, as amended. For every preview request with valid arguments, title \<open>T\<close>
  and description \<open>D\<close>, for which the metadata locator succeeds with a provider
  and a model that can be converted to text: the response is the object with
  the title \<open>T\<close>, a body that ends with the separator block followed by \<open>D\<close>
  unchanged, the labels supplied (the empty list when they were omitted) and
  the repository \<^verbatim>\<open>cline/cline\<close>, without the error flag. The commands run
  while handling it are the first \<open>k\<close> version commands of the IDE list, with
  \<open>k\<close> between one and three; \<^verbatim>\<open>gh\<close> is not among them.
\<close>

theorem preview_returns_issue:
  assumes "tool_name request = ''preview_cline_issue''"
    and "isValidReportArgs (arguments request)"
    and "property (arguments request) ''title'' = JStr T"
    and "property (arguments request) ''description'' = JStr D"
    and "getApiMetadata e = Inr apiMetadata"
    and "js_to_string (number_toString e) (apiProvider apiMetadata) = Inr provider"
    and "js_to_string (number_toString e) (modelName apiMetadata) = Inr model"
  shows "\<exists>preamble k.
           handler e request =
             (Returned \<lparr>content = Json
                 \<lparr>preview_title = T,
                  preview_body = preamble @ description_header @ D,
                  preview_labels = (if property (arguments request) ''labels'' = JUndefined
                                    then JArr [] else property (arguments request) ''labels''),
                  preview_repository = ''cline/cline''\<rparr>,
               isError = False\<rparr>,
              map (list_command (searchCmd e)) (take k ides))
         \<and> 1 \<le> k \<and> k \<le> 3"
proof -
  have tool: "tool_name request = ''report_cline_issue'' \<or> tool_name request = ''preview_cline_issue''"
    using assms(1) by simp
  from detect_version_commands [of e "searchCmd e" ides] obtain k
    where k: "snd (clineVersion e) = map (list_command (searchCmd e)) (take k ides)"
      "k \<le> 3" "1 \<le> k"
    by (auto simp: clineVersion_def ides_def)
  define preamble where "preamble =
     ''**Reported by:** User via Cline Issue Reporter MCP'' @ [newline]
     @ ''**Cline Version:** '' @ fst (clineVersion e) @ [newline]
     @ ''**IDE:** '' @ ideUsed apiMetadata @ [newline]
     @ ''**OS:** '' @ platform e @ '' ('' @ release e @ '')'' @ [newline]
     @ ''**API Provider:** '' @ provider @ [newline]
     @ ''**Model:** '' @ model @ [newline]"
  have body: "request_body e apiMetadata (arguments request) = Inr (preamble @ description_header @ D)"
    using assms(4,6,7) by (simp add: request_body_def formattedBody_def preamble_def)
  have "handler e request =
             (Returned \<lparr>content = Json
                 \<lparr>preview_title = T,
                  preview_body = preamble @ description_header @ D,
                  preview_labels = (if property (arguments request) ''labels'' = JUndefined
                                    then JArr [] else property (arguments request) ''labels''),
                  preview_repository = ''cline/cline''\<rparr>,
               isError = False\<rparr>,
              map (list_command (searchCmd e)) (take k ides))"
    unfolding handler_valid [OF tool assms(2), of e] assms(5)
    using assms(1,3) k(1) body valid_labels_truthy [OF assms(2)]
    by simp
  with k(2,3) show ?thesis by blast
qed

lemma cursor_env_version:
  "clineVersion cursor_env =
     (''3.2.1'', [''code --list-extensions --show-versions | grep saoudrizwan.claude-dev'',
                  ''cursor --list-extensions --show-versions | grep saoudrizwan.claude-dev''])"
  by (simp add: cursor_env_def sidecar_env_version)

lemma opaque_usage_selected:
  "select_usage other (JObj [(''model_usage'', opaque_usage)])
     = Inr (JObj [(''toString'', JNum (Finite 1))], JStr ''M'')"
  by (simp add: select_usage_def read_property_def opaque_usage_def)

lemma opaque_env_metadata:
  "getApiMetadata opaque_env
     = Inr \<lparr>apiProvider = JObj [(''toString'', JNum (Finite 1))], modelName = JStr ''M'',
            ideUsed = ''Cursor''\<rparr>"
  by (simp add: opaque_env_def sidecar_env_located opaque_usage_selected)

text \<open>
  A preview does run external processes: on the sample host it runs the
  extension listing of two IDEs before it returns. When the provider of the
  sidecar is an object with a key \<^verbatim>\<open>toString\<close>, the preview is an error
  response, after the same two commands; when the locator fails, it is the
  error response of the locator.
\<close>

theorem preview_runs_commands:
  "handler cursor_env \<lparr>tool_name = ''preview_cline_issue'', arguments = sample_args\<rparr> =
     (Returned \<lparr>content = Json
         \<lparr>preview_title = ''T'',
          preview_body =
            ''**Reported by:** User via Cline Issue Reporter MCP'' @ [newline]
            @ ''**Cline Version:** 3.2.1'' @ [newline]
            @ ''**IDE:** Cursor'' @ [newline]
            @ ''**OS:** linux (6.1)'' @ [newline]
            @ ''**API Provider:** P'' @ [newline]
            @ ''**Model:** M'' @ [newline]
            @ [newline] @ ''---'' @ [newline, newline] @ ''**Description:**'' @ [newline] @ ''D'',
          preview_labels = JArr [],
          preview_repository = ''cline/cline''\<rparr>,
        isError = False\<rparr>,
      [''code --list-extensions --show-versions | grep saoudrizwan.claude-dev'',
       ''cursor --list-extensions --show-versions | grep saoudrizwan.claude-dev''])
   \<and> handler opaque_env \<lparr>tool_name = ''preview_cline_issue'', arguments = sample_args\<rparr> =
     (Returned \<lparr>content = Text ''Command execution failed: Cannot convert object to primitive value'',
                isError = True\<rparr>,
      [''code --list-extensions --show-versions | grep saoudrizwan.claude-dev'',
       ''cursor --list-extensions --show-versions | grep saoudrizwan.claude-dev''])
   \<and> handler empty_env \<lparr>tool_name = ''preview_cline_issue'', arguments = sample_args\<rparr> =
     (Returned \<lparr>content = Text ''Error retrieving API metadata: Could not find any valid task directories. Please try again or provide apiProvider and modelName manually.'',
                isError = True\<rparr>, [])"
proof -
  let ?request = "\<lparr>tool_name = ''preview_cline_issue'', arguments = sample_args\<rparr>"
  have tool: "tool_name ?request = ''report_cline_issue'' \<or> tool_name ?request = ''preview_cline_issue''"
    by simp
  have valid: "isValidReportArgs (arguments ?request)" by (simp add: sample_args_valid)
  have host: "platform cursor_env = ''linux''" "release cursor_env = ''6.1''"
    "number_toString cursor_env = sample_number_text"
    by (simp_all add: cursor_env_def sidecar_env_def sample_env_def)
  have body: "request_body cursor_env
       \<lparr>apiProvider = JStr ''P'', modelName = JStr ''M'', ideUsed = ''Cursor''\<rparr> sample_args
     = Inr (''**Reported by:** User via Cline Issue Reporter MCP'' @ [newline]
            @ ''**Cline Version:** 3.2.1'' @ [newline]
            @ ''**IDE:** Cursor'' @ [newline]
            @ ''**OS:** linux (6.1)'' @ [newline]
            @ ''**API Provider:** P'' @ [newline]
            @ ''**Model:** M'' @ [newline]
            @ [newline] @ ''---'' @ [newline, newline] @ ''**Description:**'' @ [newline] @ ''D'')"
    by (simp add: request_body_def formattedBody_def description_header_def host
        cursor_env_version sample_args_def)
  have first: "handler cursor_env ?request =
     (Returned \<lparr>content = Json
         \<lparr>preview_title = ''T'',
          preview_body =
            ''**Reported by:** User via Cline Issue Reporter MCP'' @ [newline]
            @ ''**Cline Version:** 3.2.1'' @ [newline]
            @ ''**IDE:** Cursor'' @ [newline]
            @ ''**OS:** linux (6.1)'' @ [newline]
            @ ''**API Provider:** P'' @ [newline]
            @ ''**Model:** M'' @ [newline]
            @ [newline] @ ''---'' @ [newline, newline] @ ''**Description:**'' @ [newline] @ ''D'',
          preview_labels = JArr [],
          preview_repository = ''cline/cline''\<rparr>,
        isError = False\<rparr>,
      [''code --list-extensions --show-versions | grep saoudrizwan.claude-dev'',
       ''cursor --list-extensions --show-versions | grep saoudrizwan.claude-dev''])"
    unfolding handler_valid [OF tool valid, of cursor_env] cursor_env_metadata
    using body by (simp add: cursor_env_version) (simp add: sample_args_def)
  have opaque: "request_body opaque_env
       \<lparr>apiProvider = JObj [(''toString'', JNum (Finite 1))], modelName = JStr ''M'',
            ideUsed = ''Cursor''\<rparr> sample_args
     = Inl ''Cannot convert object to primitive value''"
    by (simp add: request_body_def formattedBody_def)
  have second: "handler opaque_env ?request =
     (Returned \<lparr>content = Text ''Command execution failed: Cannot convert object to primitive value'',
                isError = True\<rparr>,
      [''code --list-extensions --show-versions | grep saoudrizwan.claude-dev'',
       ''cursor --list-extensions --show-versions | grep saoudrizwan.claude-dev''])"
    unfolding handler_valid [OF tool valid, of opaque_env] opaque_env_metadata
    using opaque by (simp add: opaque_env_def sidecar_env_version caught_def starts_with_def)
  have third: "handler empty_env ?request =
     (Returned \<lparr>content = Text ''Error retrieving API metadata: Could not find any valid task directories. Please try again or provide apiProvider and modelName manually.'',
                isError = True\<rparr>, [])"
    unfolding handler_valid [OF tool valid, of empty_env] empty_env_fails by simp
  from first second third show ?thesis by (intro conjI)
qed

theorem preview_returns_issue_witness:
  "isValidReportArgs sample_args
   \<and> property sample_args ''title'' = JStr ''T''
   \<and> property sample_args ''description'' = JStr ''D''
   \<and> getApiMetadata cursor_env
       = Inr \<lparr>apiProvider = JStr ''P'', modelName = JStr ''M'', ideUsed = ''Cursor''\<rparr>
   \<and> js_to_string (number_toString cursor_env) (JStr ''P'') = Inr ''P''
   \<and> js_to_string (number_toString cursor_env) (JStr ''M'') = Inr ''M''
   \<and> (\<exists>preamble k.
        handler cursor_env \<lparr>tool_name = ''preview_cline_issue'', arguments = sample_args\<rparr> =
          (Returned \<lparr>content = Json
              \<lparr>preview_title = ''T'',
               preview_body = preamble @ description_header @ ''D'',
               preview_labels = JArr [],
               preview_repository = ''cline/cline''\<rparr>,
             isError = False\<rparr>,
           map (list_command ''grep'') (take k ides)))"
proof -
  have t: "property sample_args ''title'' = JStr ''T''"
    and d: "property sample_args ''description'' = JStr ''D''"
    and l: "property sample_args ''labels'' = JUndefined"
    by (simp_all add: sample_args_def)
  have grep: "searchCmd cursor_env = ''grep''"
    by (simp add: searchCmd_def cursor_env_def sidecar_env_def sample_env_def)
  have "\<exists>preamble k.
        handler cursor_env \<lparr>tool_name = ''preview_cline_issue'', arguments = sample_args\<rparr> =
          (Returned \<lparr>content = Json
              \<lparr>preview_title = ''T'',
               preview_body = preamble @ description_header @ ''D'',
               preview_labels = JArr [],
               preview_repository = ''cline/cline''\<rparr>,
             isError = False\<rparr>,
           map (list_command ''grep'') (take k ides))
        \<and> 1 \<le> k \<and> k \<le> 3"
    using preview_returns_issue [of "\<lparr>tool_name = ''preview_cline_issue'', arguments = sample_args\<rparr>"
      "''T''" "''D''" cursor_env _ "''P''" "''M''", OF _ _ _ _ cursor_env_metadata]
    by (simp add: sample_args_valid t d l grep)
  then have "\<exists>preamble k.
        handler cursor_env \<lparr>tool_name = ''preview_cline_issue'', arguments = sample_args\<rparr> =
          (Returned \<lparr>content = Json
              \<lparr>preview_title = ''T'',
               preview_body = preamble @ description_header @ ''D'',
               preview_labels = JArr [],
               preview_repository = ''cline/cline''\<rparr>,
             isError = False\<rparr>,
           map (list_command ''grep'') (take k ides))"
    by blast
  with t d show ?thesis by (simp add: sample_args_valid cursor_env_metadata)
qed

section \<open>The command of a report\<close>

lemma sh_unquoted_escapeShellArg_end:
  "sh_unquoted w (escapeShellArg s) = Some [word_so_far w @ s]"
  using sh_unquoted_escapeShellArg [of w s "[]"] by simp

lemma sh_unquoted_comma:
  "sh_unquoted w ('','' @ rest) = sh_unquoted (Some (word_so_far w @ '','')) rest"
  by (simp add: quote_def tab_def backslash_def sh_special_def newline_def)

lemma sh_unquoted_joined:
  "ls \<noteq> [] \<Longrightarrow>
     sh_unquoted w (join '','' (map escapeShellArg ls) @ rest)
       = sh_unquoted (Some (word_so_far w @ join '','' ls)) rest"
proof (induction ls arbitrary: w)
  case Nil
  then show ?case by simp
next
  case (Cons x xs)
  show ?case
  proof (cases xs)
    case Nil
    then show ?thesis by (simp add: sh_unquoted_escapeShellArg)
  next
    case (Cons y ys)
    have "sh_unquoted w (join '','' (map escapeShellArg (x # xs)) @ rest)
            = sh_unquoted w (escapeShellArg x @ ('','' @ (join '','' (map escapeShellArg xs) @ rest)))"
      using Cons by simp
    also have "\<dots> = sh_unquoted (Some (word_so_far w @ x))
                        ('','' @ (join '','' (map escapeShellArg xs) @ rest))"
      by (rule sh_unquoted_escapeShellArg)
    also have "\<dots> = sh_unquoted (Some ((word_so_far w @ x) @ '',''))
                        (join '','' (map escapeShellArg xs) @ rest)"
      by (simp only: sh_unquoted_comma word_so_far_def option.case)
    also have "\<dots> = sh_unquoted (Some (((word_so_far w @ x) @ '','') @ join '','' xs)) rest"
      using Cons.IH [of "Some ((word_so_far w @ x) @ '','')"] Cons
      by (simp add: word_so_far_def)
    finally show ?thesis using Cons by simp
  qed
qed

lemma sh_unquoted_joined_end:
  "ls \<noteq> [] \<Longrightarrow>
     sh_unquoted w (join '','' (map escapeShellArg ls)) = Some [word_so_far w @ join '','' ls]"
  using sh_unquoted_joined [of ls w "[]"] by simp

lemma labels_of_strings:
  "map (\<lambda>l. escapeShellArg (string_of l)) (map JStr ls) = map escapeShellArg ls"
  "map ((\<lambda>l. escapeShellArg (string_of l)) \<circ> JStr) ls = map escapeShellArg ls"
  by (induction ls) simp_all

lemma ghCommand_strings:
  "ghCommand repo title body (JArr (map JStr ls)) =
     ''gh issue create --repo '' @ escapeShellArg repo
     @ '' --title '' @ escapeShellArg title
     @ '' --body '' @ escapeShellArg body
     @ (if ls = [] then [] else '' --label '' @ join '','' (map escapeShellArg ls))"
  by (simp add: ghCommand_def labels_of_strings)

lemma sh_unquoted_ghCommand:
  "sh_unquoted None (ghCommand repo title body (JArr (map JStr ls))) =
     Some ([''gh'', ''issue'', ''create'', ''--repo'', repo, ''--title'', title, ''--body'', body]
           @ (if ls = [] then [] else [''--label'', join '','' ls]))"
proof (cases "ls = []")
  case True
  then show ?thesis
    by (simp add: ghCommand_def sh_unquoted_escapeShellArg
        sh_unquoted_escapeShellArg_end word_so_far_def quote_def tab_def backslash_def
        sh_special_def newline_def)
next
  case False
  then show ?thesis
    by (simp add: ghCommand_def labels_of_strings sh_unquoted_escapeShellArg
        sh_unquoted_joined_end word_so_far_def quote_def tab_def backslash_def
        sh_special_def newline_def)
qed

lemma sh_unquoted_ghCommand_unlabelled:
  "sh_unquoted None (ghCommand repo title body JUndefined) =
     Some [''gh'', ''issue'', ''create'', ''--repo'', repo, ''--title'', title, ''--body'', body]"
  by (simp add: ghCommand_def sh_unquoted_escapeShellArg
      sh_unquoted_escapeShellArg_end word_so_far_def quote_def tab_def backslash_def
      sh_special_def newline_def)

lemma nul_escapeShellArg: "nul \<in> set (escapeShellArg s) \<longleftrightarrow> nul \<in> set s"
  by (auto simp: escapeShellArg_def replace_quote_def nul_def quote_def backslash_def
      split: if_splits)

lemma nul_ghCommand_unlabelled:
  "nul \<in> set (ghCommand repo title body JUndefined)
     \<longleftrightarrow> nul \<in> set repo \<or> nul \<in> set title \<or> nul \<in> set body"
  by (auto simp: ghCommand_def nul_escapeShellArg) (simp_all add: nul_def)

text \<open>
  C7, as amended. Round trip of the shell escaping: for every string without
  a NUL character, the POSIX shell's word splitting of the escaped string gives
  back that string as one single argument, whatever quotes, semicolons, blanks
  or other shell characters it holds. In the command of a report whose
  repository, title and body have no NUL character, each of them comes back
  unchanged as the one argument after its option, and the command has no
  further argument and no second command.
\<close>

theorem escapeShellArg_round_trip:
  "(nul \<notin> set s \<longrightarrow> sh_words (escapeShellArg s) = Some [s])
   \<and> (nul \<notin> set repo \<and> nul \<notin> set title \<and> nul \<notin> set body \<longrightarrow>
        sh_words (ghCommand repo title body JUndefined) =
          Some [''gh'', ''issue'', ''create'', ''--repo'', repo, ''--title'', title, ''--body'', body])"
  by (simp add: sh_words_def nul_escapeShellArg nul_ghCommand_unlabelled
      sh_unquoted_escapeShellArg_end word_so_far_def sh_unquoted_ghCommand_unlabelled)

text \<open>
  A NUL character cannot be part of a shell command. The escaping leaves it
  between the quotes, and no argument list is read from the escaped string,
  nor from a command whose title holds it.
\<close>

theorem nul_is_not_reproduced:
  "escapeShellArg (''a'' @ [nul] @ ''b'') = [quote] @ ''a'' @ [nul] @ ''b'' @ [quote]
   \<and> sh_words (escapeShellArg (''a'' @ [nul] @ ''b'')) = None
   \<and> sh_words (ghCommand ''cline/cline'' (''a'' @ [nul] @ ''b'') ''B'' JUndefined) = None"
  by (simp add: sh_words_def nul_escapeShellArg nul_ghCommand_unlabelled)
     (simp add: escapeShellArg_def replace_quote_def nul_def quote_def)

theorem escapeShellArg_round_trip_witness:
  "nul \<notin> set ''it's; rm -rf ~''
   \<and> sh_words (escapeShellArg ''it's; rm -rf ~'') = Some [''it's; rm -rf ~'']
   \<and> escapeShellArg ''it's'' = [quote] @ ''it'' @ [quote, backslash, quote, quote] @ ''s'' @ [quote]
   \<and> sh_words (ghCommand ''cline/cline'' ''it's; rm -rf ~'' ''a b'' JUndefined) =
          Some [''gh'', ''issue'', ''create'', ''--repo'', ''cline/cline'',
                ''--title'', ''it's; rm -rf ~'', ''--body'', ''a b'']"
  using escapeShellArg_round_trip [of "''it's; rm -rf ~''" "''cline/cline''" "''it's; rm -rf ~''" "''a b''"]
  by (simp add: nul_def) (simp add: escapeShellArg_def replace_quote_def quote_def)

lemma strings_valid: "list_all (\<lambda>l. typeof l = ''string'') (map JStr ls)"
  by (induction ls) simp_all

lemma args_with_labels_valid:
  assumes "property args ''title'' = JStr T"
    and "property args ''description'' = JStr D"
    and "property args ''labels'' = JArr (map JStr ls)"
  shows "isValidReportArgs args"
proof (cases args)
  case (JObj kvs)
  with assms show ?thesis by (simp add: isValidReportArgs_def strings_valid)
qed (use assms in simp_all)

text \<open>
  C2, as amended. The handler's own validation accepts every labels array of
  strings, whether or not the strings belong to the enumeration of the declared
  schema. For every report request with such labels for which the locator
  succeeds and the body is formed, the commands run are the version commands
  followed by the \<^verbatim>\<open>gh\<close> command. The text of that command ends, when the
  array is not empty, with \<^verbatim>\<open>--label\<close> and the labels, each one escaped,
  joined by commas; an empty array adds nothing. On a host other than win32,
  where the command is given to the POSIX shell, and when the command has no
  NUL character, that shell splits it into the fixed arguments followed by
  \<^verbatim>\<open>--label\<close> and the labels unchanged, joined by commas, as one argument.
\<close>

theorem labels_joined_in_command:
  assumes "tool_name request = ''report_cline_issue''"
    and "property (arguments request) ''title'' = JStr T"
    and "property (arguments request) ''description'' = JStr D"
    and "property (arguments request) ''labels'' = JArr (map JStr ls)"
    and "getApiMetadata e = Inr apiMetadata"
    and "request_body e apiMetadata (arguments request) = Inr body"
  shows "isValidReportArgs (arguments request)
       \<and> snd (handler e request)
           = snd (clineVersion e) @ [ghCommand ''cline/cline'' T body (JArr (map JStr ls))]
       \<and> ghCommand ''cline/cline'' T body (JArr (map JStr ls)) =
           ''gh issue create --repo '' @ escapeShellArg ''cline/cline''
           @ '' --title '' @ escapeShellArg T
           @ '' --body '' @ escapeShellArg body
           @ (if ls = [] then [] else '' --label '' @ join '','' (map escapeShellArg ls))
       \<and> (platform e \<noteq> ''win32''
            \<and> nul \<notin> set (ghCommand ''cline/cline'' T body (JArr (map JStr ls))) \<longrightarrow>
          sh_words (ghCommand ''cline/cline'' T body (JArr (map JStr ls))) =
            Some ([''gh'', ''issue'', ''create'', ''--repo'', ''cline/cline'', ''--title'', T,
                   ''--body'', body]
                  @ (if ls = [] then [] else [''--label'', join '','' ls])))"
proof -
  have valid: "isValidReportArgs (arguments request)"
    using assms(2,3,4) by (rule args_with_labels_valid)
  have tool: "tool_name request = ''report_cline_issue'' \<or> tool_name request = ''preview_cline_issue''"
    using assms(1) by simp
  have "snd (handler e request)
          = snd (clineVersion e) @ [ghCommand ''cline/cline'' T body (JArr (map JStr ls))]"
    unfolding handler_valid [OF tool valid, of e] assms(5)
    using assms(1,2,4,6) by simp
  moreover have "nul \<notin> set (ghCommand ''cline/cline'' T body (JArr (map JStr ls))) \<longrightarrow>
          sh_words (ghCommand ''cline/cline'' T body (JArr (map JStr ls))) =
            Some ([''gh'', ''issue'', ''create'', ''--repo'', ''cline/cline'', ''--title'', T,
                   ''--body'', body]
                  @ (if ls = [] then [] else [''--label'', join '','' ls]))"
    by (simp only: sh_words_def sh_unquoted_ghCommand) simp
  ultimately show ?thesis using valid ghCommand_strings [of "''cline/cline''" T body ls] by blast
qed

lemma labelled_args_properties:
  "property labelled_args ''title'' = JStr ''T''"
  "property labelled_args ''description'' = JStr ''D''"
  "property labelled_args ''labels'' = JArr (map JStr [''Bug'', ''not-a-label''])"
  by (simp_all add: labelled_args_def)

lemma labelled_args_valid: "isValidReportArgs labelled_args"
  using labelled_args_properties by (rule args_with_labels_valid)

lemma gh_env_probes:
  "probe_version (gh_env r) (searchCmd (gh_env r)) ''code'' = None"
  "probe_version (gh_env r) (searchCmd (gh_env r)) ''cursor'' = Some ''3.2.1''"
  by (simp_all add: probe_version_def searchCmd_def gh_env_def cursor_env_def sidecar_env_def
      sample_env_def list_command_def starts_with_def extension_at_def version_char_def is_digit_def)

lemma gh_env_version:
  "clineVersion (gh_env r) =
     (''3.2.1'', [''code --list-extensions --show-versions | grep saoudrizwan.claude-dev'',
                  ''cursor --list-extensions --show-versions | grep saoudrizwan.claude-dev''])"
proof -
  let ?e = "gh_env r"
  have "clineVersion ?e = (''3.2.1'', map (list_command (searchCmd ?e)) ([''code''] @ [''cursor'']))"
    unfolding clineVersion_def ides_def
    using detect_version_first [of "[''code'']" ?e "searchCmd ?e" "''cursor''"
        "''3.2.1''" "[''windsurf'']"]
    by (simp add: gh_env_probes)
  moreover have "searchCmd ?e = ''grep''"
    by (simp add: searchCmd_def gh_env_def cursor_env_def sidecar_env_def sample_env_def)
  ultimately show ?thesis by (simp add: list_command_def)
qed

lemma gh_env_body:
  "property args ''description'' = JStr ''D'' \<Longrightarrow>
   request_body (gh_env r)
       \<lparr>apiProvider = JStr ''P'', modelName = JStr ''M'', ideUsed = ''Cursor''\<rparr> args
     = Inr (''**Reported by:** User via Cline Issue Reporter MCP'' @ [newline]
            @ ''**Cline Version:** 3.2.1'' @ [newline]
            @ ''**IDE:** Cursor'' @ [newline]
            @ ''**OS:** linux (6.1)'' @ [newline]
            @ ''**API Provider:** P'' @ [newline]
            @ ''**Model:** M'' @ [newline]
            @ [newline] @ ''---'' @ [newline, newline] @ ''**Description:**'' @ [newline] @ ''D'')"
proof -
  have "platform (gh_env r) = ''linux''" "release (gh_env r) = ''6.1''"
    by (simp_all add: gh_env_def cursor_env_def sidecar_env_def sample_env_def)
  then show "property args ''description'' = JStr ''D'' \<Longrightarrow> ?thesis"
    by (simp add: request_body_def formattedBody_def description_header_def gh_env_version)
qed

lemma nul_join:
  "nul \<notin> set sep \<Longrightarrow> nul \<in> set (join sep xs) \<longleftrightarrow> (\<exists>x \<in> set xs. nul \<in> set x)"
  by (induction sep xs rule: join.induct) auto

lemma nul_ghCommand:
  "nul \<in> set (ghCommand repo title body (JArr (map JStr ls)))
     \<longleftrightarrow> nul \<in> set repo \<or> nul \<in> set title \<or> nul \<in> set body \<or> (\<exists>l \<in> set ls. nul \<in> set l)"
proof -
  have sep: "nul \<notin> set '',''" by (simp add: nul_def)
  have joined: "nul \<in> set (join '','' (map escapeShellArg ls)) \<longleftrightarrow> (\<exists>l \<in> set ls. nul \<in> set l)"
    by (simp add: nul_join [OF sep] nul_escapeShellArg)
  have fixed: "nul \<in> set ''gh issue create --repo '' \<longleftrightarrow> False"
    "nul \<in> set '' --title '' \<longleftrightarrow> False"
    "nul \<in> set '' --body '' \<longleftrightarrow> False" "nul \<in> set '' --label '' \<longleftrightarrow> False"
    by (simp_all add: nul_def)
  show ?thesis
  proof (cases "ls = []")
    case True
    show ?thesis
      unfolding ghCommand_strings
      by (simp only: True if_True append_Nil2 set_append Un_iff nul_escapeShellArg fixed
          list.set(1) bex_empty simp_thms)
  next
    case False
    then show ?thesis
      unfolding ghCommand_strings
      by (simp only: set_append Un_iff nul_escapeShellArg fixed joined if_False simp_thms)
  qed
qed

lemma sample_body_free:
  "nul \<notin> set (''**Reported by:** User via Cline Issue Reporter MCP'' @ [newline]
            @ ''**Cline Version:** 3.2.1'' @ [newline]
            @ ''**IDE:** Cursor'' @ [newline]
            @ ''**OS:** linux (6.1)'' @ [newline]
            @ ''**API Provider:** P'' @ [newline]
            @ ''**Model:** M'' @ [newline]
            @ [newline] @ ''---'' @ [newline, newline] @ ''**Description:**'' @ [newline] @ ''D'')"
  by (simp add: nul_def newline_def)

text \<open>
  A label outside the enumeration is not rejected: the declared schema does
  not accept the arguments, the handler's validation does, the issue is
  submitted, and the label reaches the \<^verbatim>\<open>--label\<close> argument. With a label
  of the enumeration, no \<^verbatim>\<open>gh\<close> command is run when the provider of the
  sidecar cannot be converted to text, and no argument list is read from a
  command whose title holds a NUL character.
\<close>

theorem unlisted_label_is_accepted:
  "''not-a-label'' \<notin> set gitHubLabels
   \<and> \<not> inputSchema_accepts labelled_args
   \<and> isValidReportArgs labelled_args
   \<and> fst (handler (gh_env (Completed ''https://github.com/cline/cline/issues/1'' []))
             \<lparr>tool_name = ''report_cline_issue'', arguments = labelled_args\<rparr>)
       = Returned \<lparr>content = Text ''https://github.com/cline/cline/issues/1'', isError = False\<rparr>
   \<and> map_option last
         (sh_words (last (snd (handler (gh_env (Completed ''https://github.com/cline/cline/issues/1'' []))
            \<lparr>tool_name = ''report_cline_issue'', arguments = labelled_args\<rparr>))))
       = Some ''Bug,not-a-label''
   \<and> handler opaque_env
         \<lparr>tool_name = ''report_cline_issue'',
          arguments = JObj [(''title'', JStr ''T''), (''description'', JStr ''D''),
                            (''labels'', JArr [JStr ''Bug''])]\<rparr> =
       (Returned \<lparr>content = Text ''Command execution failed: Cannot convert object to primitive value'',
                  isError = True\<rparr>,
        [''code --list-extensions --show-versions | grep saoudrizwan.claude-dev'',
         ''cursor --list-extensions --show-versions | grep saoudrizwan.claude-dev''])
   \<and> sh_words (ghCommand ''cline/cline'' (''a'' @ [nul] @ ''b'') ''B'' (JArr [JStr ''Bug''])) = None"
proof -
  let ?e = "gh_env (Completed ''https://github.com/cline/cline/issues/1'' [])"
  let ?md = "\<lparr>apiProvider = JStr ''P'', modelName = JStr ''M'', ideUsed = ''Cursor''\<rparr>"
  let ?r = "\<lparr>tool_name = ''report_cline_issue'', arguments = labelled_args\<rparr>"
  let ?body = "''**Reported by:** User via Cline Issue Reporter MCP'' @ [newline]
            @ ''**Cline Version:** 3.2.1'' @ [newline]
            @ ''**IDE:** Cursor'' @ [newline]
            @ ''**OS:** linux (6.1)'' @ [newline]
            @ ''**API Provider:** P'' @ [newline]
            @ ''**Model:** M'' @ [newline]
            @ [newline] @ ''---'' @ [newline, newline] @ ''**Description:**'' @ [newline] @ ''D''"
  let ?command = "ghCommand ''cline/cline'' ''T'' ?body (JArr (map JStr [''Bug'', ''not-a-label'']))"
  have unlisted: "''not-a-label'' \<notin> set gitHubLabels" by (simp add: gitHubLabels_def)
  have schema: "\<not> inputSchema_accepts labelled_args"
    by (simp add: inputSchema_accepts_def labelled_args_def gitHubLabels_def)
  have tool: "tool_name ?r = ''report_cline_issue'' \<or> tool_name ?r = ''preview_cline_issue''"
    by simp
  have valid: "isValidReportArgs (arguments ?r)" by (simp add: labelled_args_valid)
  have body: "request_body ?e ?md labelled_args = Inr ?body"
    by (rule gh_env_body) (rule labelled_args_properties)
  have h: "handler ?e ?r = (report_outcome (execAsync ?e ?command), snd (clineVersion ?e) @ [?command])"
    unfolding handler_valid [OF tool valid, of ?e] gh_env_metadata
    using body by (simp add: labelled_args_properties)
  have run: "execAsync ?e ?command = Completed ''https://github.com/cline/cline/issues/1'' []"
    by (simp add: gh_env_def ghCommand_def starts_with_def)
  have free: "nul \<notin> set ?command"
    unfolding nul_ghCommand using sample_body_free by (simp add: nul_def)
  have words: "sh_words ?command =
      Some ([''gh'', ''issue'', ''create'', ''--repo'', ''cline/cline'', ''--title'', ''T'',
             ''--body'', ?body] @ [''--label'', ''Bug,not-a-label''])"
    using free by (simp only: sh_words_def sh_unquoted_ghCommand if_False) simp
  have accepted: "fst (handler ?e ?r)
       = Returned \<lparr>content = Text ''https://github.com/cline/cline/issues/1'', isError = False\<rparr>"
    unfolding h run by (simp add: report_outcome_def)
  have label: "map_option last (sh_words (last (snd (handler ?e ?r)))) = Some ''Bug,not-a-label''"
    unfolding h using words by simp
  let ?listed = "\<lparr>tool_name = ''report_cline_issue'',
          arguments = JObj [(''title'', JStr ''T''), (''description'', JStr ''D''),
                            (''labels'', JArr [JStr ''Bug''])]\<rparr>"
  have tool': "tool_name ?listed = ''report_cline_issue'' \<or> tool_name ?listed = ''preview_cline_issue''"
    by simp
  have valid': "isValidReportArgs (arguments ?listed)" by (simp add: isValidReportArgs_def)
  have opaque: "request_body opaque_env
       \<lparr>apiProvider = JObj [(''toString'', JNum (Finite 1))], modelName = JStr ''M'',
            ideUsed = ''Cursor''\<rparr> (arguments ?listed)
     = Inl ''Cannot convert object to primitive value''"
    by (simp add: request_body_def formattedBody_def)
  have raised: "handler opaque_env ?listed =
       (Returned \<lparr>content = Text ''Command execution failed: Cannot convert object to primitive value'',
                  isError = True\<rparr>,
        [''code --list-extensions --show-versions | grep saoudrizwan.claude-dev'',
         ''cursor --list-extensions --show-versions | grep saoudrizwan.claude-dev''])"
    unfolding handler_valid [OF tool' valid', of opaque_env] opaque_env_metadata
    using opaque by (simp add: opaque_env_def sidecar_env_version caught_def starts_with_def)
  have "nul \<in> set (ghCommand ''cline/cline'' (''a'' @ [nul] @ ''b'') ''B'' (JArr (map JStr [''Bug''])))"
    unfolding nul_ghCommand by simp
  then have refused: "sh_words (ghCommand ''cline/cline'' (''a'' @ [nul] @ ''b'') ''B'' (JArr [JStr ''Bug''])) = None"
    by (simp add: sh_words_def)
  from unlisted schema labelled_args_valid accepted label raised refused
  show ?thesis by (intro conjI)
qed

theorem labels_joined_in_command_witness:
  "property labelled_args ''labels'' = JArr (map JStr [''Bug'', ''not-a-label''])
   \<and> isValidReportArgs labelled_args
   \<and> platform (gh_env (Completed ''https://github.com/cline/cline/issues/1'' [])) \<noteq> ''win32''
   \<and> snd (handler (gh_env (Completed ''https://github.com/cline/cline/issues/1'' []))
            \<lparr>tool_name = ''report_cline_issue'', arguments = labelled_args\<rparr>) =
       [''code --list-extensions --show-versions | grep saoudrizwan.claude-dev'',
        ''cursor --list-extensions --show-versions | grep saoudrizwan.claude-dev'',
        ''gh issue create --repo '' @ escapeShellArg ''cline/cline''
        @ '' --title '' @ escapeShellArg ''T''
        @ '' --body '' @ escapeShellArg
            (''**Reported by:** User via Cline Issue Reporter MCP'' @ [newline]
             @ ''**Cline Version:** 3.2.1'' @ [newline]
             @ ''**IDE:** Cursor'' @ [newline]
             @ ''**OS:** linux (6.1)'' @ [newline]
             @ ''**API Provider:** P'' @ [newline]
             @ ''**Model:** M'' @ [newline]
             @ [newline] @ ''---'' @ [newline, newline] @ ''**Description:**'' @ [newline] @ ''D'')
        @ '' --label '' @ escapeShellArg ''Bug'' @ '','' @ escapeShellArg ''not-a-label'']
   \<and> sh_words (last (snd (handler (gh_env (Completed ''https://github.com/cline/cline/issues/1'' []))
            \<lparr>tool_name = ''report_cline_issue'', arguments = labelled_args\<rparr>))) =
       Some [''gh'', ''issue'', ''create'', ''--repo'', ''cline/cline'', ''--title'', ''T'',
             ''--body'',
             ''**Reported by:** User via Cline Issue Reporter MCP'' @ [newline]
             @ ''**Cline Version:** 3.2.1'' @ [newline]
             @ ''**IDE:** Cursor'' @ [newline]
             @ ''**OS:** linux (6.1)'' @ [newline]
             @ ''**API Provider:** P'' @ [newline]
             @ ''**Model:** M'' @ [newline]
             @ [newline] @ ''---'' @ [newline, newline] @ ''**Description:**'' @ [newline] @ ''D'',
             ''--label'', ''Bug,not-a-label'']"
proof -
  let ?e = "gh_env (Completed ''https://github.com/cline/cline/issues/1'' [])"
  let ?md = "\<lparr>apiProvider = JStr ''P'', modelName = JStr ''M'', ideUsed = ''Cursor''\<rparr>"
  let ?r = "\<lparr>tool_name = ''report_cline_issue'', arguments = labelled_args\<rparr>"
  let ?body = "''**Reported by:** User via Cline Issue Reporter MCP'' @ [newline]
            @ ''**Cline Version:** 3.2.1'' @ [newline]
            @ ''**IDE:** Cursor'' @ [newline]
            @ ''**OS:** linux (6.1)'' @ [newline]
            @ ''**API Provider:** P'' @ [newline]
            @ ''**Model:** M'' @ [newline]
            @ [newline] @ ''---'' @ [newline, newline] @ ''**Description:**'' @ [newline] @ ''D''"
  let ?command = "ghCommand ''cline/cline'' ''T'' ?body (JArr (map JStr [''Bug'', ''not-a-label'']))"
  have body: "request_body ?e ?md (arguments ?r) = Inr ?body"
    by (simp only: request.simps) (rule gh_env_body, rule labelled_args_properties)
  have host: "platform ?e \<noteq> ''win32''"
    by (simp add: gh_env_def cursor_env_def sidecar_env_def sample_env_def)
  have free: "nul \<notin> set ?command"
    unfolding nul_ghCommand using sample_body_free by (simp add: nul_def)
  have tool: "tool_name ?r = ''report_cline_issue''" by simp
  have title: "property (arguments ?r) ''title'' = JStr ''T''"
    and description: "property (arguments ?r) ''description'' = JStr ''D''"
    and labels: "property (arguments ?r) ''labels'' = JArr (map JStr [''Bug'', ''not-a-label''])"
    by (simp_all only: request.simps labelled_args_properties)
  have all: "isValidReportArgs (arguments ?r)
       \<and> snd (handler ?e ?r) = snd (clineVersion ?e) @ [?command]
       \<and> ?command =
           ''gh issue create --repo '' @ escapeShellArg ''cline/cline''
           @ '' --title '' @ escapeShellArg ''T''
           @ '' --body '' @ escapeShellArg ?body
           @ (if [''Bug'', ''not-a-label''] = [] then []
              else '' --label '' @ join '','' (map escapeShellArg [''Bug'', ''not-a-label'']))
       \<and> (platform ?e \<noteq> ''win32'' \<and> nul \<notin> set ?command \<longrightarrow>
          sh_words ?command =
            Some ([''gh'', ''issue'', ''create'', ''--repo'', ''cline/cline'', ''--title'', ''T'',
                   ''--body'', ?body]
                  @ (if [''Bug'', ''not-a-label''] = [] then []
                     else [''--label'', join '','' [''Bug'', ''not-a-label'']])))"
    by (rule labels_joined_in_command [OF tool title description labels gh_env_metadata body])
  then have commands: "snd (handler ?e ?r) = snd (clineVersion ?e) @ [?command]"
    and spelled: "?command =
           ''gh issue create --repo '' @ escapeShellArg ''cline/cline''
           @ '' --title '' @ escapeShellArg ''T''
           @ '' --body '' @ escapeShellArg ?body
           @ (if [''Bug'', ''not-a-label''] = [] then []
              else '' --label '' @ join '','' (map escapeShellArg [''Bug'', ''not-a-label'']))"
    and words: "sh_words ?command =
            Some ([''gh'', ''issue'', ''create'', ''--repo'', ''cline/cline'', ''--title'', ''T'',
                   ''--body'', ?body]
                  @ (if [''Bug'', ''not-a-label''] = [] then []
                     else [''--label'', join '','' [''Bug'', ''not-a-label'']]))"
    using host free by blast+
  have last: "last (snd (handler ?e ?r)) = ?command" unfolding commands by simp
  have listed: "snd (handler ?e ?r) =
       [''code --list-extensions --show-versions | grep saoudrizwan.claude-dev'',
        ''cursor --list-extensions --show-versions | grep saoudrizwan.claude-dev'',
        ''gh issue create --repo '' @ escapeShellArg ''cline/cline''
        @ '' --title '' @ escapeShellArg ''T''
        @ '' --body '' @ escapeShellArg ?body
        @ '' --label '' @ escapeShellArg ''Bug'' @ '','' @ escapeShellArg ''not-a-label'']"
    unfolding commands gh_env_version using spelled by simp
  have parsed: "sh_words (last (snd (handler ?e ?r))) =
       Some [''gh'', ''issue'', ''create'', ''--repo'', ''cline/cline'', ''--title'', ''T'',
             ''--body'', ?body, ''--label'', ''Bug,not-a-label'']"
    unfolding last words by simp
  from labelled_args_properties(3) labelled_args_valid host listed parsed
  show ?thesis by (intro conjI)
qed

section \<open>The failures of the locator\<close>
















end
